theory Spec2Isabelle
  imports Main "HOL-Library.Word"
begin

unbundle bit_operations_syntax

chapter \<open>Distributed file system: wire codec, chunk server and client session\<close>

text \<open>
  A shallow embedding of the C++ sources \<^verbatim>\<open>network.h\<close>, \<^verbatim>\<open>chunk_server.h\<close>,
  \<^verbatim>\<open>client_lib.h\<close> and \<^verbatim>\<open>dfs_common.h\<close>.

  Conventions.
  \<^item> \<^verbatim>\<open>uint8_t\<close>, \<^verbatim>\<open>uint16_t\<close>, \<^verbatim>\<open>uint32_t\<close>, \<^verbatim>\<open>uint64_t\<close> and \<^verbatim>\<open>size_t\<close> are
    words of their width: \<open>+\<close> and \<open>-\<close> wrap, a C cast is \<open>ucast\<close>.
  \<^item> A \<^verbatim>\<open>std::vector<uint8_t>\<close> is a byte list, its \<^verbatim>\<open>size()\<close> is
    \<open>of_nat (length xs)\<close>.
  \<^item> \<^verbatim>\<open>std::time(nullptr)\<close> is a parameter \<open>now\<close> of the operation that reads the clock.
  \<^item> A \<^verbatim>\<open>std::map\<close> is a partial function.
  \<^item> Mutation of \<^verbatim>\<open>this\<close> is explicit state passing.
  \<^item> Where C++ leaves the behaviour undefined (a copy that runs past the end of a buffer,
    signed overflow) the model returns \<open>None\<close>: no result and no successor state.
  \<^item> Record fields carry a short prefix of their struct, since several structs of the
    source share field names (\<^verbatim>\<open>chunk_id\<close>, \<^verbatim>\<open>offset\<close>, \<^verbatim>\<open>version\<close>, \<^verbatim>\<open>size\<close>).
\<close>

type_synonym u8 = "8 word"
type_synonym u16 = "16 word"
type_synonym u32 = "32 word"
type_synonym u64 = "64 word"
type_synonym time_t = int


section \<open>Configuration constants (\<^verbatim>\<open>dfs_common.h\<close>)\<close>

definition DFS_CHUNK_SIZE_MB :: nat where
  "DFS_CHUNK_SIZE_MB = 64"

definition DFS_CHUNK_SIZE_BYTES :: u32 where
  "DFS_CHUNK_SIZE_BYTES = of_nat (DFS_CHUNK_SIZE_MB * 1024 * 1024)"

definition DFS_PROTOCOL_MAGIC :: u32 where
  "DFS_PROTOCOL_MAGIC = 0xDEADBEEF"

definition DFS_PROTOCOL_VERSION :: u16 where
  "DFS_PROTOCOL_VERSION = 1"

definition DFS_REPLICATION_FACTOR :: u32 where
  "DFS_REPLICATION_FACTOR = 3"

definition DFS_METADATA_CACHE_TTL_SEC :: int where
  "DFS_METADATA_CACHE_TTL_SEC = 300"


section \<open>CRC32 (\<^verbatim>\<open>network.cpp\<close>)\<close>

text \<open>The body of the inner loop of \<^verbatim>\<open>init_crc32_table\<close>.\<close>

definition crc32_bit :: "u32 \<Rightarrow> u32" where
  "crc32_bit crc =
     (if crc AND 1 \<noteq> 0 then drop_bit 1 crc XOR 0xEDB88320 else drop_bit 1 crc)"

text \<open>The inner loop, \<^verbatim>\<open>for (j = 0; j < 8; ++j)\<close>, by the number of rounds left.\<close>

fun crc32_bits :: "nat \<Rightarrow> u32 \<Rightarrow> u32" where
  "crc32_bits 0 crc = crc"
| "crc32_bits (Suc j) crc = crc32_bits j (crc32_bit crc)"

text \<open>
  \<^verbatim>\<open>crc32_table[i]\<close> after \<^verbatim>\<open>init_crc32_table\<close>. The table has 256 entries;
  \<^verbatim>\<open>calculate_crc32\<close> reads it only at indices masked with \<^verbatim>\<open>0xFF\<close>.
\<close>

definition crc32_table :: "u32 \<Rightarrow> u32" where
  "crc32_table i = crc32_bits 8 i"

text \<open>The loop of \<^verbatim>\<open>calculate_crc32\<close> over the bytes, with the running \<^verbatim>\<open>crc\<close>.\<close>

fun crc32_loop :: "u8 list \<Rightarrow> u32 \<Rightarrow> u32" where
  "crc32_loop [] crc = crc"
| "crc32_loop (byte # rest) crc =
     crc32_loop rest (drop_bit 8 crc XOR crc32_table ((crc XOR ucast byte) AND 0xFF))"

text \<open>
  \<^verbatim>\<open>calculate_crc32(data, length)\<close>; the argument is the list of the \<^verbatim>\<open>length\<close> bytes
  at \<^verbatim>\<open>data\<close>.
\<close>

definition calculate_crc32 :: "u8 list \<Rightarrow> u32" where
  "calculate_crc32 bytes = crc32_loop bytes 0xFFFFFFFF XOR 0xFFFFFFFF"


section \<open>The chunk server (\<^verbatim>\<open>chunk_server.h\<close>)\<close>

subsection \<open>Data\<close>

record StoredChunk =
  sc_chunk_id :: u64
  sc_data :: "u8 list"
  sc_version :: u32
  sc_size :: u64
  sc_creation_time :: time_t
  sc_last_access :: time_t
  sc_checksum :: u32

record FileReadRequest =
  rreq_chunk_id :: u64
  rreq_offset :: u32
  rreq_length :: u32
  rreq_version :: u32
  rreq_client_id :: string

record FileWriteRequest =
  wreq_chunk_id :: u64
  wreq_offset :: u32
  wreq_data :: "u8 list"
  wreq_version :: u32
  wreq_client_id :: string

text \<open>
  The fields of \<^verbatim>\<open>ChunkServer\<close> that the chunk operations read and write. The
  identity of the server, its sockets and its thread pool take no part in them.
\<close>

record ChunkServer =
  max_capacity :: u64
  used_capacity :: u64
  chunks :: "u64 \<Rightarrow> StoredChunk option"

text \<open>
  The failures the handlers report, by the \<^verbatim>\<open>error_message\<close> they set:
  \<open>OutOfCapacity\<close> is \<^verbatim>\<open>"Insufficient storage capacity"\<close>, \<open>NotFound\<close> is
  \<^verbatim>\<open>"Chunk not found"\<close>, \<open>OutOfRange\<close> is \<^verbatim>\<open>"Offset out of range"\<close>. The source
  has no other failure message.
\<close>

datatype error = OutOfCapacity | NotFound | OutOfRange

text \<open>The constructor: nothing stored, nothing used.\<close>

definition ChunkServer_init :: "u64 \<Rightarrow> ChunkServer" where
  "ChunkServer_init mc = \<lparr>max_capacity = mc, used_capacity = 0, chunks = Map.empty\<rparr>"

subsection \<open>Buffers\<close>

text \<open>\<^verbatim>\<open>std::vector::resize(n)\<close>: truncate, or append value-initialised (zero) bytes.\<close>

definition resize :: "nat \<Rightarrow> u8 list \<Rightarrow> u8 list" where
  "resize n xs = take n xs @ replicate (n - length xs) 0"

text \<open>
  \<^verbatim>\<open>memcpy(dst.data() + off, src.data(), src.size())\<close>, for a copy that stays inside
  \<open>dst\<close>; the callers check \<open>off + length src \<le> length dst\<close> first.
\<close>

definition memcpy_at :: "nat \<Rightarrow> u8 list \<Rightarrow> u8 list \<Rightarrow> u8 list" where
  "memcpy_at off src dst = take off dst @ src @ drop (off + length src) dst"

subsection \<open>\<^verbatim>\<open>ChunkServer::handle_write\<close>\<close>

text \<open>
  The result is \<open>None\<close> where the \<^verbatim>\<open>memcpy\<close> would write past the resized buffer
  (undefined behaviour). Otherwise it is the response (\<open>Inl\<close> the failure, \<open>Inr\<close> the
  \<^verbatim>\<open>chunk_id\<close> of a successful response) and the server afterwards.
\<close>

definition handle_write ::
  "time_t \<Rightarrow> FileWriteRequest \<Rightarrow> ChunkServer \<Rightarrow> ((error + u64) \<times> ChunkServer) option" where
  "handle_write now req S =
     (if used_capacity S + of_nat (length (wreq_data req)) > max_capacity S
      then Some (Inl OutOfCapacity, S)
      else case chunks S (wreq_chunk_id req) of
        None \<Rightarrow>
          let new_chunk = \<lparr>sc_chunk_id = wreq_chunk_id req,
                           sc_data = wreq_data req,
                           sc_version = 1,
                           sc_size = of_nat (length (wreq_data req)),
                           sc_creation_time = now,
                           sc_last_access = now,
                           sc_checksum = calculate_crc32 (wreq_data req)\<rparr>
          in Some (Inr (wreq_chunk_id req),
                   S\<lparr>chunks := (chunks S)(wreq_chunk_id req \<mapsto> new_chunk),
                     used_capacity := used_capacity S + sc_size new_chunk\<rparr>)
      | Some chunk \<Rightarrow>
          let new_size32 = max (wreq_offset req + of_nat (length (wreq_data req)))
                               (ucast (sc_size chunk) :: u32);
              new_size = (ucast new_size32 :: u64)
          in if used_capacity S - sc_size chunk + new_size > max_capacity S
             then Some (Inl OutOfCapacity, S)
             else if unat (wreq_offset req) + length (wreq_data req) > unat new_size
             then None
             else
               let bytes = memcpy_at (unat (wreq_offset req)) (wreq_data req)
                             (resize (unat new_size) (sc_data chunk));
                   chunk' = chunk\<lparr>sc_data := bytes,
                                  sc_size := new_size,
                                  sc_version := sc_version chunk + 1,
                                  sc_last_access := now,
                                  sc_checksum := calculate_crc32 (take (unat new_size) bytes)\<rparr>
               in Some (Inr (wreq_chunk_id req),
                        S\<lparr>chunks := (chunks S)(wreq_chunk_id req \<mapsto> chunk'),
                          used_capacity := used_capacity S - sc_size chunk + sc_size chunk'\<rparr>))"

subsection \<open>\<^verbatim>\<open>ChunkServer::handle_read\<close>\<close>

text \<open>
  The response object is fresh at every call site, so \<^verbatim>\<open>resp.data\<close> after the
  \<^verbatim>\<open>insert\<close> is the copied range. The result is \<open>None\<close> where the range
  \<^verbatim>\<open>[begin + offset, begin + offset + read_size)\<close> leaves the buffer.
\<close>

definition handle_read ::
  "time_t \<Rightarrow> FileReadRequest \<Rightarrow> ChunkServer \<Rightarrow> ((error + u8 list) \<times> ChunkServer) option" where
  "handle_read now req S =
     (case chunks S (rreq_chunk_id req) of
        None \<Rightarrow> Some (Inl NotFound, S)
      | Some chunk \<Rightarrow>
          let read_size = min (rreq_length req) ((ucast (sc_size chunk) :: u32) - rreq_offset req)
          in if (ucast (rreq_offset req) :: u64) \<ge> sc_size chunk
             then Some (Inl OutOfRange, S)
             else if unat (rreq_offset req) + unat read_size > length (sc_data chunk)
             then None
             else Some (Inr (take (unat read_size) (drop (unat (rreq_offset req)) (sc_data chunk))),
                        S\<lparr>chunks := (chunks S)(rreq_chunk_id req \<mapsto> chunk\<lparr>sc_last_access := now\<rparr>)\<rparr>))"

subsection \<open>\<^verbatim>\<open>ChunkServer::delete_chunk\<close>\<close>

definition delete_chunk :: "u64 \<Rightarrow> ChunkServer \<Rightarrow> bool \<times> ChunkServer" where
  "delete_chunk cid S =
     (case chunks S cid of
        None \<Rightarrow> (False, S)
      | Some chunk \<Rightarrow>
          (True, S\<lparr>used_capacity := used_capacity S - sc_size chunk,
                   chunks := (chunks S)(cid := None)\<rparr>))"

subsection \<open>Runs of the server, and what should hold after them\<close>

text \<open>
  The three operations on the chunk table, and a run of them from some state. A run has
  no final state when one of its operations has none.
\<close>

datatype server_op =
  Write time_t FileWriteRequest
| Read time_t FileReadRequest
| Delete u64

fun exec_op :: "server_op \<Rightarrow> ChunkServer \<Rightarrow> ChunkServer option" where
  "exec_op (Write now req) S = map_option snd (handle_write now req S)"
| "exec_op (Read now req) S = map_option snd (handle_read now req S)"
| "exec_op (Delete cid) S = Some (snd (delete_chunk cid S))"

fun run_ops :: "server_op list \<Rightarrow> ChunkServer \<Rightarrow> ChunkServer option" where
  "run_ops [] S = Some S"
| "run_ops (x # xs) S = (case exec_op x S of None \<Rightarrow> None | Some S' \<Rightarrow> run_ops xs S')"

text \<open>
  The sum of the \<^verbatim>\<open>size\<close> fields of the stored chunks, in \<^verbatim>\<open>uint64_t\<close> arithmetic as
  the source accumulates it, and the number of bytes held in their buffers.
\<close>

definition total_size :: "(u64 \<Rightarrow> StoredChunk option) \<Rightarrow> u64" where
  "total_size m = (\<Sum>cid \<in> dom m. case m cid of Some c \<Rightarrow> sc_size c | None \<Rightarrow> 0)"

definition total_bytes :: "(u64 \<Rightarrow> StoredChunk option) \<Rightarrow> nat" where
  "total_bytes m = (\<Sum>cid \<in> dom m. case m cid of Some c \<Rightarrow> length (sc_data c) | None \<Rightarrow> 0)"

definition chunk_ok :: "StoredChunk \<Rightarrow> bool" where
  "chunk_ok c \<longleftrightarrow>
     sc_size c = of_nat (length (sc_data c)) \<and> sc_checksum c = calculate_crc32 (sc_data c)"

definition server_inv :: "ChunkServer \<Rightarrow> bool" where
  "server_inv S \<longleftrightarrow>
     used_capacity S = total_size (chunks S) \<and> (\<forall>cid c. chunks S cid = Some c \<longrightarrow> chunk_ok c)"

text \<open>
  The writes that a request of the protocol can carry: \<^verbatim>\<open>offset\<close> and \<^verbatim>\<open>length\<close> are
  \<^verbatim>\<open>uint32_t\<close> and a frame holds at most \<^verbatim>\<open>DFS_CHUNK_SIZE_BYTES\<close> bytes, so the bytes of
  one write number less than \<open>2^32\<close>. After such writes every buffer is shorter than
  \<open>2^32\<close> bytes.
\<close>

fun write_fits :: "server_op \<Rightarrow> bool" where
  "write_fits (Write now req) \<longleftrightarrow> length (wreq_data req) < 2 ^ 32"
| "write_fits (Read now req) \<longleftrightarrow> True"
| "write_fits (Delete cid) \<longleftrightarrow> True"

definition chunks_small :: "ChunkServer \<Rightarrow> bool" where
  "chunks_small S \<longleftrightarrow> (\<forall>cid c. chunks S cid = Some c \<longrightarrow> length (sc_data c) < 2 ^ 32)"

text \<open>
  A run for the examples below: write \<^verbatim>\<open>"ABCDE"\<close> to chunk 42, read it, write one byte at
  offset 6 (one byte past the end, so a gap of one byte), create chunk 7 and delete it.
\<close>

definition scenario_ops :: "server_op list" where
  "scenario_ops =
     [Write 100 \<lparr>wreq_chunk_id = 42, wreq_offset = 0, wreq_data = [0x41, 0x42, 0x43, 0x44, 0x45],
                 wreq_version = 1, wreq_client_id = []\<rparr>,
      Read 101 \<lparr>rreq_chunk_id = 42, rreq_offset = 0, rreq_length = 10, rreq_version = 1,
                rreq_client_id = []\<rparr>,
      Write 102 \<lparr>wreq_chunk_id = 42, wreq_offset = 6, wreq_data = [0x46],
                 wreq_version = 1, wreq_client_id = []\<rparr>,
      Write 103 \<lparr>wreq_chunk_id = 7, wreq_offset = 0, wreq_data = [0x61],
                 wreq_version = 1, wreq_client_id = []\<rparr>,
      Delete 7]"

definition scenario_state :: ChunkServer where
  "scenario_state =
     \<lparr>max_capacity = 1000000, used_capacity = 7,
      chunks = [42 \<mapsto> \<lparr>sc_chunk_id = 42,
                         sc_data = [0x41, 0x42, 0x43, 0x44, 0x45, 0, 0x46],
                         sc_version = 2, sc_size = 7,
                         sc_creation_time = 100, sc_last_access = 102,
                         sc_checksum = 0xDF4B4CA9\<rparr>]\<rparr>"


subsection \<open>Example states and requests\<close>

text \<open>
  The server after \<^verbatim>\<open>"ABCDE"\<close> was written to chunk 42 of an empty server of capacity
  1000000; a server of capacity 10 holding the 8 bytes of chunk 1; a server of capacity
  \<open>2^33\<close> holding one chunk of \<open>2^32\<close> bytes; requests with the fields that matter.
\<close>

definition abcde_chunk :: StoredChunk where
  "abcde_chunk = \<lparr>sc_chunk_id = 42, sc_data = [0x41, 0x42, 0x43, 0x44, 0x45], sc_version = 1,
                  sc_size = 5, sc_creation_time = 100, sc_last_access = 100,
                  sc_checksum = 0x72D31AD5\<rparr>"

definition abcde_state :: ChunkServer where
  "abcde_state = \<lparr>max_capacity = 1000000, used_capacity = 5, chunks = [42 \<mapsto> abcde_chunk]\<rparr>"

definition gap_write :: FileWriteRequest where
  "gap_write = \<lparr>wreq_chunk_id = 42, wreq_offset = 6, wreq_data = [0x46], wreq_version = 1,
                wreq_client_id = []\<rparr>"

definition full_chunk :: StoredChunk where
  "full_chunk = \<lparr>sc_chunk_id = 1, sc_data = [1, 2, 3, 4, 5, 6, 7, 8], sc_version = 1,
                 sc_size = 8, sc_creation_time = 1, sc_last_access = 1,
                 sc_checksum = 0x3FCA88C5\<rparr>"

definition full_state :: ChunkServer where
  "full_state = \<lparr>max_capacity = 10, used_capacity = 8, chunks = [1 \<mapsto> full_chunk]\<rparr>"

definition write_of :: "u64 \<Rightarrow> u32 \<Rightarrow> u8 list \<Rightarrow> FileWriteRequest" where
  "write_of cid off bytes =
     \<lparr>wreq_chunk_id = cid, wreq_offset = off, wreq_data = bytes, wreq_version = 1,
      wreq_client_id = []\<rparr>"

definition read_of :: "u64 \<Rightarrow> u32 \<Rightarrow> u32 \<Rightarrow> FileReadRequest" where
  "read_of cid off len =
     \<lparr>rreq_chunk_id = cid, rreq_offset = off, rreq_length = len, rreq_version = 1,
      rreq_client_id = []\<rparr>"

definition big_chunk :: StoredChunk where
  "big_chunk = \<lparr>sc_chunk_id = 1, sc_data = replicate (2 ^ 32) 0, sc_version = 1,
                sc_size = 2 ^ 32, sc_creation_time = 1, sc_last_access = 1,
                sc_checksum = calculate_crc32 (replicate (2 ^ 32) 0)\<rparr>"

definition big_state :: ChunkServer where
  "big_state = \<lparr>max_capacity = 2 ^ 33, used_capacity = 2 ^ 32, chunks = [1 \<mapsto> big_chunk]\<rparr>"

definition offset5_state :: ChunkServer where
  "offset5_state =
     \<lparr>max_capacity = 10, used_capacity = 3,
      chunks = [2 \<mapsto> \<lparr>sc_chunk_id = 2, sc_data = [1, 2, 3], sc_version = 1, sc_size = 3,
                       sc_creation_time = 1, sc_last_access = 1,
                       sc_checksum = calculate_crc32 [1, 2, 3]\<rparr>]\<rparr>"


section \<open>The wire codec (\<^verbatim>\<open>dfs_common.h\<close>, \<^verbatim>\<open>network.cpp\<close>)\<close>

subsection \<open>Frames\<close>

text \<open>
  \<^verbatim>\<open>struct ProtocolFrame\<close>. The member \<^verbatim>\<open>payload\<close> is an array of
  \<^verbatim>\<open>DFS_CHUNK_SIZE_BYTES\<close> bytes: a frame object holds a byte list of that length, of
  which the first \<^verbatim>\<open>payload_size\<close> bytes are the payload on the wire.
\<close>

record ProtocolFrame =
  pf_magic :: u32
  pf_version :: u16
  pf_message_type :: u16
  pf_payload_size :: u32
  pf_checksum :: u32
  pf_payload :: "u8 list"

text \<open>\<^verbatim>\<open>enum MessageType : uint16_t\<close>.\<close>

definition OP_READ :: u16 where "OP_READ = 0x01"
definition OP_WRITE :: u16 where "OP_WRITE = 0x02"
definition OP_DELETE :: u16 where "OP_DELETE = 0x03"
definition OP_REPLICATE :: u16 where "OP_REPLICATE = 0x04"
definition OP_HEARTBEAT :: u16 where "OP_HEARTBEAT = 0x05"
definition OP_METADATA_QUERY :: u16 where "OP_METADATA_QUERY = 0x06"
definition OP_FILE_CREATE :: u16 where "OP_FILE_CREATE = 0x07"
definition OP_FILE_DELETE :: u16 where "OP_FILE_DELETE = 0x08"
definition OP_MKDIR :: u16 where "OP_MKDIR = 0x09"
definition OP_ACK :: u16 where "OP_ACK = 0xFF"

text \<open>
  The source sends and receives a frame as the bytes of the object in memory. On the
  little-endian hosts the protocol is written for, an integer member is its bytes from the
  least significant one; the five header members lie at the offsets 0, 4, 6, 8 and 12
  without padding, and the payload array starts at offset 16.
\<close>

fun le_bytes :: "nat \<Rightarrow> 'a::len word \<Rightarrow> u8 list" where
  "le_bytes 0 w = []"
| "le_bytes (Suc n) w = ucast w # le_bytes n (drop_bit 8 w)"

fun le_word :: "u8 list \<Rightarrow> 'a::len word" where
  "le_word [] = 0"
| "le_word (b # bs) = ucast b OR push_bit 8 (le_word bs)"

definition header_bytes :: "ProtocolFrame \<Rightarrow> u8 list" where
  "header_bytes f =
     le_bytes 4 (pf_magic f) @ le_bytes 2 (pf_version f) @ le_bytes 2 (pf_message_type f) @
     le_bytes 4 (pf_payload_size f) @ le_bytes 4 (pf_checksum f)"

text \<open>The first \<open>n\<close> bytes of the payload array.\<close>

definition payload_bytes :: "ProtocolFrame \<Rightarrow> nat \<Rightarrow> u8 list" where
  "payload_bytes f n = take n (pf_payload f)"

definition sizeof_ProtocolFrame :: nat where
  "sizeof_ProtocolFrame = 16 + unat DFS_CHUNK_SIZE_BYTES"

text \<open>\<^verbatim>\<open>memcpy(&frame, header_data.data(), 16)\<close>, for 16 bytes of header data.\<close>

definition memcpy_header :: "u8 list \<Rightarrow> ProtocolFrame \<Rightarrow> ProtocolFrame" where
  "memcpy_header h f =
     f\<lparr>pf_magic := le_word (take 4 h),
       pf_version := le_word (take 2 (drop 4 h)),
       pf_message_type := le_word (take 2 (drop 6 h)),
       pf_payload_size := le_word (take 4 (drop 8 h)),
       pf_checksum := le_word (take 4 (drop 12 h))\<rparr>"

text \<open>
  \<^verbatim>\<open>memcpy(frame.payload, src, n)\<close>, for a source of at least \<open>n\<close> bytes and \<open>n\<close> within
  the array; the callers check both first.
\<close>

definition memcpy_payload :: "u8 list \<Rightarrow> nat \<Rightarrow> ProtocolFrame \<Rightarrow> ProtocolFrame" where
  "memcpy_payload src n f = f\<lparr>pf_payload := take n src @ drop n (pf_payload f)\<rparr>"

subsection \<open>Sockets\<close>

text \<open>
  A connected socket: its descriptor, the bytes handed to \<^verbatim>\<open>send\<close> so far, and the bytes
  of the peer that \<^verbatim>\<open>recv\<close> has yet to deliver. The model covers a connection on which
  the operating system reports no error: \<^verbatim>\<open>send\<close> takes every byte, and \<^verbatim>\<open>recv\<close>
  delivers the bytes that are there, up to the number asked for.
\<close>

record NetworkSocket =
  socket_fd :: int
  outbound :: "u8 list"
  inbound :: "u8 list"

definition send_data :: "u8 list \<Rightarrow> NetworkSocket \<Rightarrow> bool \<times> NetworkSocket" where
  "send_data buf sock =
     (if socket_fd sock < 0 then (False, sock)
      else (True, sock\<lparr>outbound := outbound sock @ buf\<rparr>))"

text \<open>\<^verbatim>\<open>recv_data(data, max_size)\<close>; \<open>buf\<close> is the vector \<^verbatim>\<open>data\<close> before the call.\<close>

definition recv_data ::
  "u8 list \<Rightarrow> nat \<Rightarrow> NetworkSocket \<Rightarrow> bool \<times> u8 list \<times> NetworkSocket" where
  "recv_data buf max_size sock =
     (if socket_fd sock < 0 then (False, buf, sock)
      else (True, take max_size (inbound sock),
            sock\<lparr>inbound := drop max_size (inbound sock)\<rparr>))"

subsection \<open>\<^verbatim>\<open>NetworkSocket::send_frame\<close>\<close>

text \<open>
  The buffer is the first \<^verbatim>\<open>frame_size\<close> bytes of the frame object, where
  \<^verbatim>\<open>frame_size = sizeof(uint32_t) * 4 + sizeof(uint16_t) * 2 + frame.payload_size\<close>. The
  result is \<open>None\<close> where that range is longer than the object.
\<close>

definition send_frame :: "ProtocolFrame \<Rightarrow> NetworkSocket \<Rightarrow> (bool \<times> NetworkSocket) option" where
  "send_frame f sock =
     (let frame_size = 4 * 4 + 2 * 2 + unat (pf_payload_size f)
      in if frame_size > sizeof_ProtocolFrame then None
         else Some (send_data (header_bytes f @ payload_bytes f (frame_size - 16)) sock))"

subsection \<open>\<^verbatim>\<open>NetworkSocket::recv_frame\<close>\<close>

text \<open>
  The first argument is the caller's frame object, which the function overwrites as it
  goes; the result carries what it holds on return. The result is \<open>None\<close> where the copy
  into \<^verbatim>\<open>frame.payload\<close> would read past the received bytes or write past the array.
\<close>

definition recv_frame ::
  "ProtocolFrame \<Rightarrow> NetworkSocket \<Rightarrow> (bool \<times> ProtocolFrame \<times> NetworkSocket) option" where
  "recv_frame frame sock =
     (case recv_data [] 16 sock of (ok, header_data, sock1) \<Rightarrow>
        if \<not> ok then Some (False, frame, sock1)
        else if length header_data \<noteq> 16 then Some (False, frame, sock1)
        else
          let frame1 = memcpy_header header_data frame
          in if pf_magic frame1 \<noteq> DFS_PROTOCOL_MAGIC then Some (False, frame1, sock1)
             else
               case recv_data [] (unat (pf_payload_size frame1)) sock1 of
                 (ok2, payload_data, sock2) \<Rightarrow>
                   if \<not> ok2 then Some (False, frame1, sock2)
                   else if unat (pf_payload_size frame1) > length payload_data \<or>
                           unat (pf_payload_size frame1) > unat DFS_CHUNK_SIZE_BYTES
                   then None
                   else
                     let frame2 = memcpy_payload payload_data (unat (pf_payload_size frame1)) frame1;
                         calculated_crc =
                           calculate_crc32 (payload_bytes frame2 (unat (pf_payload_size frame2)))
                     in if calculated_crc \<noteq> pf_checksum frame2
                        then Some (False, frame2, sock2)
                        else Some (True, frame2, sock2))"

subsection \<open>\<^verbatim>\<open>ChunkServer::process_message\<close>\<close>

text \<open>
  For \<^verbatim>\<open>OP_READ\<close> and \<^verbatim>\<open>OP_WRITE\<close> the source copies payload bytes over a request
  object, and a response object into the payload, with \<^verbatim>\<open>memcpy\<close>; these objects hold a
  \<^verbatim>\<open>std::vector\<close> and a \<^verbatim>\<open>std::string\<close>, so what the copies yield depends on the
  memory layout of the library. They are parameters here, as is \<^verbatim>\<open>handle_replicate\<close>,
  which the class declares and the sources do not define.
\<close>

record raw_layout =
  sizeof_FileReadRequest :: nat
  sizeof_FileWriteRequest :: nat
  read_request_of :: "u8 list \<Rightarrow> FileReadRequest"
  write_request_of :: "u8 list \<Rightarrow> FileWriteRequest"
  read_response_image :: "u8 list \<Rightarrow> u8 list"
  write_response_image :: "u64 \<Rightarrow> u8 list"
  handle_replicate :: "ProtocolFrame \<Rightarrow> ChunkServer \<Rightarrow> ChunkServer"

text \<open>
  The \<^verbatim>\<open>switch\<close> of \<^verbatim>\<open>process_message\<close>: the response and the server after it. A
  handler that fails leaves the response without payload.
\<close>

definition dispatch_message ::
  "raw_layout \<Rightarrow> time_t \<Rightarrow> ProtocolFrame \<Rightarrow> ProtocolFrame \<Rightarrow> ChunkServer \<Rightarrow>
   (ProtocolFrame \<times> ChunkServer) option" where
  "dispatch_message env now frame response S =
     (if pf_message_type frame = OP_READ then
        (case handle_read now
                (read_request_of env (payload_bytes frame (sizeof_FileReadRequest env))) S of
           None \<Rightarrow> None
         | Some (Inl e, S') \<Rightarrow> Some (response, S')
         | Some (Inr bytes, S') \<Rightarrow>
             let image = read_response_image env bytes
             in Some ((memcpy_payload image (length image) response)
                        \<lparr>pf_payload_size := of_nat (length image)\<rparr>, S'))
      else if pf_message_type frame = OP_WRITE then
        (case handle_write now
                (write_request_of env (payload_bytes frame (sizeof_FileWriteRequest env))) S of
           None \<Rightarrow> None
         | Some (Inl e, S') \<Rightarrow> Some (response, S')
         | Some (Inr cid, S') \<Rightarrow>
             let image = write_response_image env cid
             in Some ((memcpy_payload image (length image) response)
                        \<lparr>pf_payload_size := of_nat (length image)\<rparr>, S'))
      else if pf_message_type frame = OP_DELETE then
        (let chunk_id = le_word (payload_bytes frame 8)
         in Some (response\<lparr>pf_message_type := OP_ACK\<rparr>, snd (delete_chunk chunk_id S)))
      else if pf_message_type frame = OP_REPLICATE then
        Some (response, handle_replicate env frame S)
      else Some (response\<lparr>pf_message_type := OP_ACK\<rparr>, S))"

text \<open>
  \<^verbatim>\<open>process_message(frame, response)\<close>. The checksum is computed over
  \<^verbatim>\<open>response.payload_size\<close> bytes of the response's payload array; the result is \<open>None\<close>
  where that is more than the array holds.
\<close>

definition process_message ::
  "raw_layout \<Rightarrow> time_t \<Rightarrow> ProtocolFrame \<Rightarrow> ProtocolFrame \<Rightarrow> ChunkServer \<Rightarrow>
   (bool \<times> ProtocolFrame \<times> ChunkServer) option" where
  "process_message env now frame response S =
     (case dispatch_message env now frame
             (response\<lparr>pf_magic := DFS_PROTOCOL_MAGIC, pf_version := DFS_PROTOCOL_VERSION,
                       pf_message_type := OP_ACK\<rparr>) S of
        None \<Rightarrow> None
      | Some (response', S') \<Rightarrow>
          if unat (pf_payload_size response') > unat DFS_CHUNK_SIZE_BYTES then None
          else Some (True,
                     response'\<lparr>pf_checksum :=
                       calculate_crc32 (payload_bytes response' (unat (pf_payload_size response')))\<rparr>,
                     S'))"

subsection \<open>Example frames and sockets\<close>

text \<open>
  A frame object filled with zeros; a frame object whose payload array starts with the
  given bytes; the frame of the round-trip scenario, carrying \<^verbatim>\<open>"Hello"\<close>, and its 21
  bytes in the layout of the protocol; a frame whose payload fills the array; a socket
  with given bytes to receive.
\<close>

definition array_of :: "u8 list \<Rightarrow> u8 list" where
  "array_of xs = xs @ replicate (unat DFS_CHUNK_SIZE_BYTES - length xs) 0"

definition zero_frame :: ProtocolFrame where
  "zero_frame = \<lparr>pf_magic = 0, pf_version = 0, pf_message_type = 0, pf_payload_size = 0,
                 pf_checksum = 0, pf_payload = array_of []\<rparr>"

definition hello_frame :: ProtocolFrame where
  "hello_frame = \<lparr>pf_magic = 0xDEADBEEF, pf_version = 1, pf_message_type = OP_WRITE,
                  pf_payload_size = 5, pf_checksum = 0xF7D18982,
                  pf_payload = array_of [0x48, 0x65, 0x6C, 0x6C, 0x6F]\<rparr>"

definition hello_wire :: "u8 list" where
  "hello_wire = [0xEF, 0xBE, 0xAD, 0xDE, 0x01, 0x00, 0x02, 0x00, 0x05, 0x00, 0x00, 0x00,
                 0x82, 0x89, 0xD1, 0xF7, 0x48, 0x65, 0x6C, 0x6C, 0x6F]"

definition zero_payload_crc :: u32 where
  "zero_payload_crc = calculate_crc32 (replicate (unat DFS_CHUNK_SIZE_BYTES) 0)"

definition full_frame :: ProtocolFrame where
  "full_frame = \<lparr>pf_magic = DFS_PROTOCOL_MAGIC, pf_version = DFS_PROTOCOL_VERSION,
                 pf_message_type = OP_WRITE, pf_payload_size = DFS_CHUNK_SIZE_BYTES,
                 pf_checksum = zero_payload_crc,
                 pf_payload = replicate (unat DFS_CHUNK_SIZE_BYTES) 0\<rparr>"

definition socket_with :: "u8 list \<Rightarrow> NetworkSocket" where
  "socket_with bytes = \<lparr>socket_fd = 3, outbound = [], inbound = bytes\<rparr>"

text \<open>
  A response object as a caller may hand it to \<^verbatim>\<open>process_message\<close>: the call site
  declares it without initialising it, so its \<^verbatim>\<open>payload_size\<close> holds whatever the memory
  held; here \<^verbatim>\<open>0xFFFFFFFF\<close>.
\<close>

definition stale_response :: ProtocolFrame where
  "stale_response = zero_frame\<lparr>pf_payload_size := 0xFFFFFFFF\<rparr>"


text \<open>
  The bytes of the \<^verbatim>\<open>"Hello"\<close> frame with a wrong magic value, with a payload that does
  not match the checksum, and with version 2.
\<close>

definition bad_magic_wire :: "u8 list" where
  "bad_magic_wire = [0xEE, 0xBE, 0xAD, 0xDE, 0x01, 0x00, 0x02, 0x00, 0x05, 0x00, 0x00, 0x00,
                     0x82, 0x89, 0xD1, 0xF7, 0x48, 0x65, 0x6C, 0x6C, 0x6F]"

definition bad_crc_wire :: "u8 list" where
  "bad_crc_wire = [0xEF, 0xBE, 0xAD, 0xDE, 0x01, 0x00, 0x02, 0x00, 0x05, 0x00, 0x00, 0x00,
                   0x82, 0x89, 0xD1, 0xF7, 0x48, 0x65, 0x6C, 0x6C, 0x70]"

definition version2_wire :: "u8 list" where
  "version2_wire = [0xEF, 0xBE, 0xAD, 0xDE, 0x02, 0x00, 0x02, 0x00, 0x05, 0x00, 0x00, 0x00,
                    0x82, 0x89, 0xD1, 0xF7, 0x48, 0x65, 0x6C, 0x6C, 0x6F]"

text \<open>
  A layout for the examples, and the \<^verbatim>\<open>OP_DELETE\<close> frame for a chunk: its payload is the
  \<^verbatim>\<open>chunk_id\<close>, eight bytes.
\<close>

definition example_layout :: raw_layout where
  "example_layout =
     \<lparr>sizeof_FileReadRequest = 56, sizeof_FileWriteRequest = 80,
      read_request_of = (\<lambda>bytes. read_of (le_word (take 8 bytes)) 0 0),
      write_request_of = (\<lambda>bytes. write_of (le_word (take 8 bytes)) 0 []),
      read_response_image = (\<lambda>bytes. bytes),
      write_response_image = (\<lambda>cid. le_bytes 8 cid),
      handle_replicate = (\<lambda>frame S. S)\<rparr>"

definition delete_frame :: "u64 \<Rightarrow> ProtocolFrame" where
  "delete_frame cid =
     \<lparr>pf_magic = DFS_PROTOCOL_MAGIC, pf_version = DFS_PROTOCOL_VERSION,
      pf_message_type = OP_DELETE, pf_payload_size = 8,
      pf_checksum = calculate_crc32 (le_bytes 8 cid),
      pf_payload = array_of (le_bytes 8 cid)\<rparr>"


section \<open>The client session (\<^verbatim>\<open>client_lib.h\<close>)\<close>

text \<open>
  The structs of \<^verbatim>\<open>dfs_common.h\<close> that the client keeps.
\<close>

record ChunkLocation =
  cl_server_id :: string
  cl_ip_address :: string
  cl_port :: u16
  cl_generation_number :: u64

record ChunkHandle =
  ch_chunk_id :: u64
  ch_replicas :: "ChunkLocation list"
  ch_version :: u32
  ch_creation_time :: u64
  ch_size :: u64

record FileMetadata =
  fm_path :: string
  fm_file_id :: u64
  fm_permissions :: u32
  fm_creation_time :: u64
  fm_modification_time :: u64
  fm_file_size :: u64
  fm_chunks :: "ChunkHandle list"
  fm_replication_factor :: u32
  fm_owner :: string
  fm_is_directory :: bool

text \<open>
  The default constructor of \<^verbatim>\<open>FileMetadata\<close>: no chunks; permissions \<^verbatim>\<open>0644\<close>; both
  times are the clock.
\<close>

definition FileMetadata_default :: "time_t \<Rightarrow> FileMetadata" where
  "FileMetadata_default now =
     \<lparr>fm_path = [], fm_file_id = 0, fm_permissions = 420,
      fm_creation_time = of_int now, fm_modification_time = of_int now, fm_file_size = 0,
      fm_chunks = [], fm_replication_factor = DFS_REPLICATION_FACTOR, fm_owner = [],
      fm_is_directory = False\<rparr>"

text \<open>
  The state of a \<^verbatim>\<open>DistributedFileSystem\<close>: the table of open files, the next file
  handle, an \<^verbatim>\<open>int\<close>, and the metadata cache. The sockets to the metadata server and to
  the chunk servers belong to the network, whose answers are arguments of the operations
  below.
\<close>

record OpenFileHandle =
  ofh_path :: string
  ofh_file_id :: u64
  ofh_current_offset :: u64
  ofh_chunks :: "ChunkHandle list"
  ofh_writable :: bool
  ofh_open_time :: time_t

record CachedMetadata =
  cm_metadata :: FileMetadata
  cm_cached_time :: time_t

record DistributedFileSystem =
  open_files :: "int \<Rightarrow> OpenFileHandle option"
  next_file_handle :: int
  metadata_cache :: "string \<Rightarrow> CachedMetadata option"

definition DistributedFileSystem_init :: DistributedFileSystem where
  "DistributedFileSystem_init =
     \<lparr>open_files = Map.empty, next_file_handle = 1, metadata_cache = Map.empty\<rparr>"

text \<open>
  The largest \<^verbatim>\<open>int\<close>; incrementing it is undefined behaviour.
\<close>

definition INT_MAX :: int where
  "INT_MAX = 2147483647"

definition invalidate_cache_entry :: "string \<Rightarrow> DistributedFileSystem \<Rightarrow> DistributedFileSystem" where
  "invalidate_cache_entry path S = S\<lparr>metadata_cache := (metadata_cache S)(path := None)\<rparr>"

text \<open>
  \<^verbatim>\<open>create_file\<close>, \<^verbatim>\<open>delete_file\<close> and \<^verbatim>\<open>mkdir\<close> exchange one frame with the metadata
  server. \<open>Failed\<close>: the connection, the send or the receive failed; \<open>Replied t\<close>: a
  response of message type \<open>t\<close> arrived.
\<close>

datatype reply = Failed | Replied u16

definition create_file :: "reply \<Rightarrow> string \<Rightarrow> DistributedFileSystem \<Rightarrow> int \<times> DistributedFileSystem" where
  "create_file r path S =
     (case r of
        Failed \<Rightarrow> (-1, S)
      | Replied message_type \<Rightarrow>
          if message_type \<noteq> OP_ACK then (-1, S) else (0, invalidate_cache_entry path S))"

definition delete_file :: "reply \<Rightarrow> string \<Rightarrow> DistributedFileSystem \<Rightarrow> int \<times> DistributedFileSystem" where
  "delete_file r path S =
     (case r of
        Failed \<Rightarrow> (-1, S)
      | Replied message_type \<Rightarrow>
          (if message_type = OP_ACK then 0 else -1, invalidate_cache_entry path S))"

definition mkdir :: "reply \<Rightarrow> string \<Rightarrow> DistributedFileSystem \<Rightarrow> int \<times> DistributedFileSystem" where
  "mkdir r path S =
     (case r of
        Failed \<Rightarrow> (-1, S)
      | Replied message_type \<Rightarrow>
          (if message_type = OP_ACK then 0 else -1, invalidate_cache_entry path S))"

text \<open>
  \<^verbatim>\<open>query_metadata\<close>. \<open>answer\<close> is what the exchange with the metadata server yields if
  the cache does not serve the query: \<open>None\<close> when the connection, the send or the receive
  fails or the response is too short, else the metadata copied from the response. The
  clock reads of one call give the same time.
\<close>

definition query_metadata ::
  "time_t \<Rightarrow> FileMetadata option \<Rightarrow> string \<Rightarrow> DistributedFileSystem \<Rightarrow>
   FileMetadata option \<times> DistributedFileSystem" where
  "query_metadata now answer path S =
     (let from_server = (\<lambda>S'.
            case answer of
              None \<Rightarrow> (None, S')
            | Some metadata \<Rightarrow>
                (Some metadata,
                 S'\<lparr>metadata_cache := (metadata_cache S')(path \<mapsto>
                       \<lparr>cm_metadata = metadata, cm_cached_time = now\<rparr>)\<rparr>))
      in case metadata_cache S path of
           None \<Rightarrow> from_server S
         | Some cached \<Rightarrow>
             if now - cm_cached_time cached < DFS_METADATA_CACHE_TTL_SEC
             then (Some (cm_metadata cached), S)
             else from_server (S\<lparr>metadata_cache := (metadata_cache S)(path := None)\<rparr>))"

definition get_file_info ::
  "time_t \<Rightarrow> FileMetadata option \<Rightarrow> string \<Rightarrow> DistributedFileSystem \<Rightarrow>
   FileMetadata option \<times> DistributedFileSystem" where
  "get_file_info now answer path S = query_metadata now answer path S"

text \<open>
  \<^verbatim>\<open>open(path, flags)\<close>: the descriptor returned, \<open>-1\<close> on failure, and the state.
\<close>

definition open_path ::
  "time_t \<Rightarrow> FileMetadata option \<Rightarrow> string \<Rightarrow> int \<Rightarrow> DistributedFileSystem \<Rightarrow>
   (int \<times> DistributedFileSystem) option" where
  "open_path now answer path flags S =
     (case query_metadata now answer path S of
        (None, S1) \<Rightarrow> Some (-1, S1)
      | (Some metadata, S1) \<Rightarrow>
          if next_file_handle S1 = INT_MAX then None
          else
            let fd = next_file_handle S1;
                handle = \<lparr>ofh_path = path, ofh_file_id = fm_file_id metadata,
                          ofh_current_offset = 0, ofh_chunks = fm_chunks metadata,
                          ofh_writable = (flags AND 1 \<noteq> 0), ofh_open_time = now\<rparr>
            in Some (fd, S1\<lparr>next_file_handle := fd + 1,
                            open_files := (open_files S1)(fd \<mapsto> handle)\<rparr>))"

text \<open>
  \<^verbatim>\<open>read_chunk\<close> and \<^verbatim>\<open>write_chunk\<close>. \<open>exchange\<close> stands for everything after the
  replica is chosen: taking a connection from the pool, sending the request frame,
  receiving the response and reading the result out of its payload.
\<close>

definition read_chunk ::
  "(ChunkLocation \<Rightarrow> FileReadRequest \<Rightarrow> u8 list option) \<Rightarrow> time_t \<Rightarrow> u64 \<Rightarrow> u32 \<Rightarrow> u32 \<Rightarrow>
   u8 list option" where
  "read_chunk exchange now chunk_id offset len =
     (let dummy = FileMetadata_default now
      in case fm_chunks dummy of
           [] \<Rightarrow> None
         | chunk # _ \<Rightarrow>
             (case ch_replicas chunk of
                [] \<Rightarrow> None
              | replica # _ \<Rightarrow>
                  exchange replica
                    \<lparr>rreq_chunk_id = chunk_id, rreq_offset = offset, rreq_length = len,
                     rreq_version = ch_version chunk, rreq_client_id = []\<rparr>))"

definition write_chunk ::
  "(ChunkLocation \<Rightarrow> FileWriteRequest \<Rightarrow> bool) \<Rightarrow> time_t \<Rightarrow> u64 \<Rightarrow> u32 \<Rightarrow> u8 list \<Rightarrow> bool" where
  "write_chunk exchange now chunk_id offset bytes =
     (let dummy = FileMetadata_default now
      in case fm_chunks dummy of
           [] \<Rightarrow> False
         | chunk # _ \<Rightarrow>
             (case ch_replicas chunk of
                [] \<Rightarrow> False
              | replica # _ \<Rightarrow>
                  exchange replica
                    \<lparr>wreq_chunk_id = chunk_id, wreq_offset = offset, wreq_data = bytes,
                     wreq_version = ch_version chunk, wreq_client_id = []\<rparr>))"

text \<open>
  \<^verbatim>\<open>read(fd, buffer, size)\<close>: \<open>buffer\<close> tells whether the pointer is non-null; the
  result is the count returned, the bytes copied to the buffer, and the state.
  \<^verbatim>\<open>write(fd, data, size)\<close>: the argument is \<open>None\<close> for a null pointer, else the
  \<^verbatim>\<open>size\<close> bytes at \<^verbatim>\<open>data\<close>.
\<close>

definition read_fd ::
  "(ChunkLocation \<Rightarrow> FileReadRequest \<Rightarrow> u8 list option) \<Rightarrow> time_t \<Rightarrow> int \<Rightarrow> bool \<Rightarrow> u64 \<Rightarrow>
   DistributedFileSystem \<Rightarrow> u64 \<times> u8 list \<times> DistributedFileSystem" where
  "read_fd exchange now fd buffer sz S =
     (if \<not> buffer \<or> sz = 0 then (0, [], S)
      else case open_files S fd of
        None \<Rightarrow> (0, [], S)
      | Some handle \<Rightarrow>
          (case ofh_chunks handle of
             [] \<Rightarrow> (0, [], S)
           | chunk # _ \<Rightarrow>
               (case read_chunk exchange now (ch_chunk_id chunk)
                       (ucast (ofh_current_offset handle)) (ucast sz) of
                  None \<Rightarrow> (0, [], S)
                | Some bytes \<Rightarrow>
                    (of_nat (length bytes),
                     take (min (length bytes) (unat sz)) bytes,
                     S\<lparr>open_files := (open_files S)(fd \<mapsto>
                          handle\<lparr>ofh_current_offset :=
                            ofh_current_offset handle + of_nat (length bytes)\<rparr>)\<rparr>))))"

definition write_fd ::
  "(ChunkLocation \<Rightarrow> FileWriteRequest \<Rightarrow> bool) \<Rightarrow> time_t \<Rightarrow> int \<Rightarrow> u8 list option \<Rightarrow>
   DistributedFileSystem \<Rightarrow> u64 \<times> DistributedFileSystem" where
  "write_fd exchange now fd buffer S =
     (case buffer of
        None \<Rightarrow> (0, S)
      | Some bytes \<Rightarrow>
          if (of_nat (length bytes) :: u64) = 0 then (0, S)
          else case open_files S fd of
            None \<Rightarrow> (0, S)
          | Some handle \<Rightarrow>
              if \<not> ofh_writable handle then (0, S)
              else
                (case ofh_chunks handle of
                   [] \<Rightarrow> (0, S)
                 | chunk # _ \<Rightarrow>
                     if \<not> write_chunk exchange now (ch_chunk_id chunk)
                              (ucast (ofh_current_offset handle)) bytes
                     then (0, S)
                     else (of_nat (length bytes),
                           S\<lparr>open_files := (open_files S)(fd \<mapsto>
                                handle\<lparr>ofh_current_offset :=
                                  ofh_current_offset handle + of_nat (length bytes)\<rparr>)\<rparr>)))"

text \<open>
  \<^verbatim>\<open>close(fd)\<close>.
\<close>

definition close_fd :: "int \<Rightarrow> DistributedFileSystem \<Rightarrow> int \<times> DistributedFileSystem" where
  "close_fd fd S =
     (case open_files S fd of
        None \<Rightarrow> (-1, S)
      | Some handle \<Rightarrow> (0, S\<lparr>open_files := (open_files S)(fd := None)\<rparr>))"

text \<open>
  The public operations of a client, each with the answers of the network it meets, and
  a run of them; a run collects the descriptors that its successful calls of
  \<^verbatim>\<open>open\<close> return, in order.
\<close>

datatype client_op =
  CreateFile reply string
| DeleteFile reply string
| Mkdir reply string
| GetFileInfo time_t "FileMetadata option" string
| OpenPath time_t "FileMetadata option" string int
| ReadFd "ChunkLocation \<Rightarrow> FileReadRequest \<Rightarrow> u8 list option" time_t int bool u64
| WriteFd "ChunkLocation \<Rightarrow> FileWriteRequest \<Rightarrow> bool" time_t int "u8 list option"
| CloseFd int

fun client_step ::
  "client_op \<Rightarrow> DistributedFileSystem \<Rightarrow> (int option \<times> DistributedFileSystem) option" where
  "client_step (CreateFile r path) S = Some (None, snd (create_file r path S))"
| "client_step (DeleteFile r path) S = Some (None, snd (delete_file r path S))"
| "client_step (Mkdir r path) S = Some (None, snd (mkdir r path S))"
| "client_step (GetFileInfo now answer path) S = Some (None, snd (get_file_info now answer path S))"
| "client_step (OpenPath now answer path flags) S =
     (case open_path now answer path flags S of
        None \<Rightarrow> None
      | Some (fd, S') \<Rightarrow> Some (if fd = -1 then None else Some fd, S'))"
| "client_step (ReadFd exchange now fd buffer sz) S =
     Some (None, snd (snd (read_fd exchange now fd buffer sz S)))"
| "client_step (WriteFd exchange now fd buffer) S =
     Some (None, snd (write_fd exchange now fd buffer S))"
| "client_step (CloseFd fd) S = Some (None, snd (close_fd fd S))"

fun client_run ::
  "client_op list \<Rightarrow> DistributedFileSystem \<Rightarrow> (int list \<times> DistributedFileSystem) option" where
  "client_run [] S = Some ([], S)"
| "client_run (x # xs) S =
     (case client_step x S of
        None \<Rightarrow> None
      | Some (r, S') \<Rightarrow>
          (case client_run xs S' of
             None \<Rightarrow> None
           | Some (fds, S'') \<Rightarrow> Some ((case r of None \<Rightarrow> fds | Some fd \<Rightarrow> fd # fds), S'')))"

subsection \<open>Example client states\<close>

text \<open>
  A file of one chunk with one replica, the client after it has opened that file for
  writing, a network that answers every chunk request, and a run that opens, closes and
  opens again.
\<close>

definition example_replica :: ChunkLocation where
  "example_replica = \<lparr>cl_server_id = ''CS_001'', cl_ip_address = ''127.0.0.1'', cl_port = 9001,
                      cl_generation_number = 1\<rparr>"

definition example_metadata :: FileMetadata where
  "example_metadata =
     \<lparr>fm_path = ''/data/document.txt'', fm_file_id = 7, fm_permissions = 420,
      fm_creation_time = 5, fm_modification_time = 5, fm_file_size = 31,
      fm_chunks = [\<lparr>ch_chunk_id = 42, ch_replicas = [example_replica], ch_version = 1,
                    ch_creation_time = 5, ch_size = 31\<rparr>],
      fm_replication_factor = 3, fm_owner = ''root'', fm_is_directory = False\<rparr>"

definition example_client :: DistributedFileSystem where
  "example_client =
     \<lparr>open_files = [1 \<mapsto> \<lparr>ofh_path = ''/data/document.txt'', ofh_file_id = 7,
                             ofh_current_offset = 0, ofh_chunks = fm_chunks example_metadata,
                             ofh_writable = True, ofh_open_time = 10\<rparr>],
      next_file_handle = 2,
      metadata_cache = [''/data/document.txt'' \<mapsto>
                          \<lparr>cm_metadata = example_metadata, cm_cached_time = 10\<rparr>]\<rparr>"

definition always_answers :: "ChunkLocation \<Rightarrow> FileReadRequest \<Rightarrow> u8 list option" where
  "always_answers replica req = Some [0x48, 0x69]"

definition always_accepts :: "ChunkLocation \<Rightarrow> FileWriteRequest \<Rightarrow> bool" where
  "always_accepts replica req = True"

definition example_client_ops :: "client_op list" where
  "example_client_ops =
     [OpenPath 10 (Some example_metadata) ''/data/document.txt'' 1,
      WriteFd always_accepts 11 1 (Some [0x48, 0x69]),
      CloseFd 1,
      OpenPath 12 None ''/archive'' 0,
      OpenPath 13 None ''/data/document.txt'' 0,
      ReadFd always_answers 14 2 True 16,
      DeleteFile (Replied OP_ACK) ''/data/document.txt'',
      OpenPath 400 (Some example_metadata) ''/data/document.txt'' 0,
      CloseFd 2,
      CloseFd 3]"


section \<open>Properties of CRC32\<close>

lemma crc32_bits_8:
  "crc32_bits 8 c =
     crc32_bit (crc32_bit (crc32_bit (crc32_bit (crc32_bit (crc32_bit (crc32_bit (crc32_bit c)))))))"
  by (simp add: eval_nat_numeral)

lemmas crc32_eval = calculate_crc32_def crc32_table_def crc32_bits_8 crc32_bit_def

text \<open>
  C8. The CRC32 of the source (polynomial \<^verbatim>\<open>0xEDB88320\<close>, initial value
  \<^verbatim>\<open>0xFFFFFFFF\<close>, reflected, final XOR \<^verbatim>\<open>0xFFFFFFFF\<close>) meets the reference vectors: the
  CRC32 of the empty byte sequence is 0, and the CRC32 of the nine ASCII bytes
  \<^verbatim>\<open>"123456789"\<close> is \<^verbatim>\<open>0xCBF43926\<close>.
\<close>

theorem crc32_reference_vectors:
  "calculate_crc32 [] = 0 \<and>
   calculate_crc32 [0x31, 0x32, 0x33, 0x34, 0x35, 0x36, 0x37, 0x38, 0x39] = 0xCBF43926"
  by (simp add: crc32_eval)

section \<open>The capacity and checksum invariant of the chunk server\<close>

lemma total_size_del:
  assumes "m k = Some c"
  shows "total_size (m(k := None)) = total_size m - sc_size c"
proof -
  have fin: "finite (dom m)" by simp
  have k: "k \<in> dom m" using assms by auto
  have "total_size m =
          sc_size c + (\<Sum>cid \<in> dom m - {k}. case m cid of Some c \<Rightarrow> sc_size c | None \<Rightarrow> 0)"
    unfolding total_size_def by (subst sum.remove [OF fin k]) (simp add: assms)
  moreover have "total_size (m(k := None)) =
          (\<Sum>cid \<in> dom m - {k}. case m cid of Some c \<Rightarrow> sc_size c | None \<Rightarrow> 0)"
    unfolding total_size_def by (rule sum.cong) auto
  ultimately show ?thesis by simp
qed

lemma total_size_absent:
  assumes "m k = None"
  shows "total_size (m(k \<mapsto> c)) = total_size m + sc_size c"
proof -
  have fin: "finite (dom m)" by simp
  have k: "k \<notin> dom m" using assms by auto
  have "total_size (m(k \<mapsto> c)) =
          sc_size c + (\<Sum>cid \<in> dom m. case (m(k \<mapsto> c)) cid of Some c \<Rightarrow> sc_size c | None \<Rightarrow> 0)"
    unfolding total_size_def by (simp add: sum.insert [OF fin k])
  also have "(\<Sum>cid \<in> dom m. case (m(k \<mapsto> c)) cid of Some c \<Rightarrow> sc_size c | None \<Rightarrow> 0) =
          total_size m"
    unfolding total_size_def using k by (intro sum.cong) auto
  finally show ?thesis by (simp add: fun_upd_def add.commute)
qed

lemma total_size_upd:
  assumes "m k = Some c"
  shows "total_size (m(k \<mapsto> c')) = total_size m - sc_size c + sc_size c'"
proof -
  have "total_size ((m(k := None))(k \<mapsto> c')) = total_size (m(k := None)) + sc_size c'"
    by (rule total_size_absent) simp
  then show ?thesis using total_size_del [of m k c] assms by simp
qed

lemma length_resize: "length (resize n xs) = n"
  by (simp add: resize_def)

lemma length_memcpy_at:
  "off + length src \<le> length dst \<Longrightarrow> length (memcpy_at off src dst) = length dst"
  by (simp add: memcpy_at_def)

lemma handle_write_inv:
  assumes "server_inv S" "handle_write now req S = Some (r, S')"
  shows "server_inv S'"
  using assms
  by (auto simp: handle_write_def server_inv_def chunk_ok_def Let_def
        total_size_absent total_size_upd length_resize length_memcpy_at
      split: if_splits option.splits)

lemma handle_read_inv:
  assumes "server_inv S" "handle_read now req S = Some (r, S')"
  shows "server_inv S'"
  using assms
  by (auto simp: handle_read_def server_inv_def chunk_ok_def Let_def total_size_upd
      split: if_splits option.splits)

lemma delete_chunk_inv:
  assumes "server_inv S" "delete_chunk cid S = (r, S')"
  shows "server_inv S'"
  using assms
  by (auto simp: delete_chunk_def server_inv_def total_size_del split: if_splits option.splits)

lemma init_inv: "server_inv (ChunkServer_init mc)"
  by (simp add: server_inv_def ChunkServer_init_def total_size_def)

lemma exec_op_inv: "server_inv S \<Longrightarrow> exec_op x S = Some S' \<Longrightarrow> server_inv S'"
  by (cases x) (auto dest: handle_write_inv handle_read_inv delete_chunk_inv simp: prod_eq_iff)

lemma run_ops_inv: "server_inv S \<Longrightarrow> run_ops xs S = Some S' \<Longrightarrow> server_inv S'"
  by (induction xs arbitrary: S) (auto split: option.splits dest: exec_op_inv)

lemma unat_sum_word:
  fixes f :: "'a \<Rightarrow> u64"
  assumes "finite A" "(\<Sum>x\<in>A. unat (f x)) < 2 ^ 64"
  shows "unat (\<Sum>x\<in>A. f x) = (\<Sum>x\<in>A. unat (f x))"
  using assms
proof (induction A rule: finite_induct)
  case empty
  then show ?case by simp
next
  case (insert a A)
  then have "(\<Sum>x\<in>A. unat (f x)) < 2 ^ 64" by simp
  then have ih: "unat (\<Sum>x\<in>A. f x) = (\<Sum>x\<in>A. unat (f x))" using insert by blast
  have "unat (f a) + unat (\<Sum>x\<in>A. f x) < 2 ^ 64" using insert ih by simp
  then have "unat (f a + (\<Sum>x\<in>A. f x)) = unat (f a) + unat (\<Sum>x\<in>A. f x)"
    by (simp add: unat_add_lem [THEN iffD1])
  then show ?case using insert ih by simp
qed

text \<open>
  Where the stored bytes fit a 64-bit address space, as they do in any process, the
  64-bit sums are the sums of natural numbers.
\<close>

lemma inv_bytes:
  assumes inv: "server_inv S" and small: "total_bytes (chunks S) < 2 ^ 64"
  shows "unat (used_capacity S) = total_bytes (chunks S) \<and>
         (\<forall>cid c. chunks S cid = Some c \<longrightarrow> unat (sc_size c) = length (sc_data c))"
proof -
  let ?m = "chunks S"
  have each: "unat (sc_size c) = length (sc_data c)" if "?m cid = Some c" for cid c
  proof -
    have "length (sc_data c) \<le> total_bytes ?m"
    proof -
      have "cid \<in> dom ?m" using that by auto
      then have "(case ?m cid of Some c \<Rightarrow> length (sc_data c) | None \<Rightarrow> 0) \<le> total_bytes ?m"
        unfolding total_bytes_def by (intro member_le_sum) auto
      then show ?thesis using that by simp
    qed
    then have "length (sc_data c) < 2 ^ 64" using small by simp
    moreover have "sc_size c = of_nat (length (sc_data c))"
      using inv that by (auto simp: server_inv_def chunk_ok_def)
    ultimately show ?thesis by (simp add: unat_of_nat)
  qed
  have eq: "(\<Sum>cid\<in>dom ?m. unat (case ?m cid of Some c \<Rightarrow> sc_size c | None \<Rightarrow> 0)) =
            total_bytes ?m"
    unfolding total_bytes_def by (intro sum.cong) (auto simp: each)
  have "unat (total_size ?m) =
          (\<Sum>cid\<in>dom ?m. unat (case ?m cid of Some c \<Rightarrow> sc_size c | None \<Rightarrow> 0))"
    unfolding total_size_def using small by (intro unat_sum_word) (simp_all add: eq)
  then show ?thesis using inv each eq by (simp add: server_inv_def)
qed

lemmas chunk_server_eval =
  ChunkServer_init_def handle_write_def handle_read_def delete_chunk_def Let_def
  resize_def memcpy_at_def

text \<open>
  C1. In every state the chunk server reaches from its initial, empty state by a run of
  \<^verbatim>\<open>handle_write\<close>, \<^verbatim>\<open>handle_read\<close> and \<^verbatim>\<open>delete_chunk\<close>, \<^verbatim>\<open>used_capacity\<close> is the
  sum of the sizes of the stored chunks, and every stored chunk has \<^verbatim>\<open>size\<close> equal to
  the length of its bytes and \<^verbatim>\<open>checksum\<close> equal to the CRC32 of its bytes. The sums and
  the sizes are those of the source, in \<^verbatim>\<open>uint64_t\<close>; they are the sums and lengths as
  natural numbers whenever the stored bytes number less than \<open>2^64\<close>. (A run in which a
  write copies past the end of a chunk's buffer has undefined behaviour and reaches no
  state.)
\<close>

theorem chunk_server_invariant:
  assumes "run_ops ops (ChunkServer_init mc) = Some S"
  shows "used_capacity S = total_size (chunks S) \<and>
         (\<forall>cid c. chunks S cid = Some c \<longrightarrow>
            sc_size c = of_nat (length (sc_data c)) \<and>
            sc_checksum c = calculate_crc32 (sc_data c)) \<and>
         (total_bytes (chunks S) < 2 ^ 64 \<longrightarrow>
            unat (used_capacity S) = total_bytes (chunks S) \<and>
            (\<forall>cid c. chunks S cid = Some c \<longrightarrow> unat (sc_size c) = length (sc_data c)))"
proof -
  have inv: "server_inv S" using run_ops_inv [OF init_inv assms] .
  then show ?thesis using inv_bytes [OF inv] by (simp add: server_inv_def chunk_ok_def)
qed

lemma scenario_run: "run_ops scenario_ops (ChunkServer_init 1000000) = Some scenario_state"
  by (simp add: scenario_ops_def scenario_state_def chunk_server_eval crc32_eval)

theorem chunk_server_invariant_witness:
  "run_ops scenario_ops (ChunkServer_init 1000000) = Some scenario_state \<and>
   used_capacity scenario_state = total_size (chunks scenario_state) \<and>
   unat (used_capacity scenario_state) = total_bytes (chunks scenario_state) \<and>
   (\<exists>c. chunks scenario_state 42 = Some c \<and>
        sc_size c = of_nat (length (sc_data c)) \<and>
        unat (sc_size c) = length (sc_data c) \<and>
        sc_checksum c = calculate_crc32 (sc_data c))"
proof -
  have present: "\<exists>c. chunks scenario_state 42 = Some c"
    by (simp add: scenario_state_def)
  have bytes: "total_bytes (chunks scenario_state) < 2 ^ 64"
    by (simp add: scenario_state_def total_bytes_def)
  show ?thesis
    using scenario_run present bytes chunk_server_invariant [OF scenario_run] by auto
qed


section \<open>Writes\<close>

lemma nth_resize: "i < n \<Longrightarrow> resize n xs ! i = (if i < length xs then xs ! i else 0)"
  by (auto simp: resize_def nth_append)

lemma nth_memcpy_at:
  "off + length src \<le> length dst \<Longrightarrow> i < length dst \<Longrightarrow>
   memcpy_at off src dst ! i = (if off \<le> i \<and> i < off + length src then src ! (i - off) else dst ! i)"
  by (auto simp: memcpy_at_def nth_append min_def)

lemma unat_u32_add_len:
  assumes "unat (off :: u32) + n < 2 ^ 32"
  shows "unat (off + of_nat n) = unat off + n"
proof -
  have n: "unat (of_nat n :: u32) = n" using assms by (simp add: unat_of_nat)
  then have "unat off + unat (of_nat n :: u32) < 2 ^ LENGTH(32)" using assms by simp
  then show ?thesis using n by (simp add: unat_add_lem [THEN iffD1])
qed

lemma unat_ucast_u64_u32:
  assumes "unat (s :: u64) < 2 ^ 32"
  shows "unat (ucast s :: u32) = unat s"
  using assms by (simp add: unsigned_ucast_eq take_bit_nat_eq_self)

lemma unat_ucast_u32_u64: "unat (ucast (x :: u32) :: u64) = unat x"
proof -
  have "unat x < 2 ^ 32" using unsigned_less [of x] by simp
  then have "unat x < 2 ^ 64" by (rule less_trans) simp
  then show ?thesis by (simp add: unsigned_ucast_eq take_bit_nat_eq_self)
qed

lemma unat_word_max: "unat (max a b) = max (unat a) (unat b)" for a b :: "'a::len word"
  by (simp add: max_def word_le_nat_alt)

lemma ucast_u32_u64_of_nat: "(ucast (x :: u32) :: u64) = of_nat (unat x)"
  by (simp add: word_unat_eq_iff unat_ucast_u32_u64 unat_of_nat)

lemma handle_write_present_eq:
  assumes present: "chunks S (wreq_chunk_id req) = Some chunk"
      and no_wrap: "unat (wreq_offset req) + length (wreq_data req) < 2 ^ 32"
      and small: "unat (sc_size chunk) < 2 ^ 32"
      and ns: "ns = max (unat (wreq_offset req) + length (wreq_data req)) (unat (sc_size chunk))"
      and bytes: "bytes = memcpy_at (unat (wreq_offset req)) (wreq_data req) (resize ns (sc_data chunk))"
  shows "handle_write now req S =
     (if max_capacity S < used_capacity S + of_nat (length (wreq_data req)) \<or>
         max_capacity S < used_capacity S - sc_size chunk + of_nat ns
      then Some (Inl OutOfCapacity, S)
      else Some (Inr (wreq_chunk_id req),
                 S\<lparr>chunks := (chunks S)(wreq_chunk_id req \<mapsto>
                      chunk\<lparr>sc_data := bytes, sc_size := of_nat ns,
                            sc_version := sc_version chunk + 1, sc_last_access := now,
                            sc_checksum := calculate_crc32 bytes\<rparr>),
                   used_capacity := used_capacity S - sc_size chunk + of_nat ns\<rparr>))"
proof -
  let ?n32 = "max (wreq_offset req + of_nat (length (wreq_data req))) (ucast (sc_size chunk) :: u32)"
  have n32: "unat ?n32 = ns"
    by (simp add: unat_word_max unat_u32_add_len [OF no_wrap] unat_ucast_u64_u32 [OF small] ns)
  have n64: "(ucast ?n32 :: u64) = of_nat ns"
    by (simp only: ucast_u32_u64_of_nat n32)
  have un64: "unat (ucast ?n32 :: u64) = ns"
    by (simp only: unat_ucast_u32_u64 n32)
  have fits: "unat (wreq_offset req) + length (wreq_data req) \<le> ns"
    by (simp add: ns)
  have len: "length bytes = ns"
    using fits by (simp add: bytes length_memcpy_at length_resize)
  show ?thesis
    unfolding handle_write_def Let_def present option.case n64
    using fits len by (auto simp: bytes un64 [unfolded n64])
qed

text \<open>
  C2, as amended. For every write \<open>(chunk_id, offset, bytes)\<close> to a chunk that is present,
  with \<open>offset + len(bytes) < 2^32\<close> and a current size below \<open>2^32\<close> (so that the 32-bit
  arithmetic of the source does not truncate): the new logical size is
  \<open>max (offset + len(bytes)) current.size\<close>; the write fails with \<open>OutOfCapacity\<close>, leaving
  the server as it was, if and only if \<open>used_capacity + len(bytes) > max_capacity\<close> or
  \<open>used_capacity - current.size + new_size > max_capacity\<close> (both in \<^verbatim>\<open>uint64_t\<close>);
  otherwise the buffer has \<open>new_size\<close> bytes, which are \<open>bytes\<close> from \<open>offset\<close> on, the old
  bytes elsewhere, and zero beyond the old buffer; \<open>size\<close> is \<open>new_size\<close>, \<open>version\<close> is
  incremented by one, \<open>checksum\<close> is the CRC32 of the new bytes, \<open>last_access\<close> is the time
  of the write, and \<open>used_capacity\<close> becomes \<open>used_capacity - current.size + new_size\<close>.
\<close>

theorem handle_write_existing_chunk:
  assumes present: "chunks S (wreq_chunk_id req) = Some chunk"
      and no_wrap: "unat (wreq_offset req) + length (wreq_data req) < 2 ^ 32"
      and small: "unat (sc_size chunk) < 2 ^ 32"
  shows
    "let new_size = max (unat (wreq_offset req) + length (wreq_data req)) (unat (sc_size chunk));
         full = (max_capacity S < used_capacity S + of_nat (length (wreq_data req)) \<or>
                 max_capacity S < used_capacity S - sc_size chunk + of_nat new_size)
     in (handle_write now req S = Some (Inl OutOfCapacity, S) \<longleftrightarrow> full) \<and>
        (\<not> full \<longrightarrow>
          (\<exists>chunk'.
             handle_write now req S =
               Some (Inr (wreq_chunk_id req),
                     S\<lparr>chunks := (chunks S)(wreq_chunk_id req \<mapsto> chunk'),
                       used_capacity := used_capacity S - sc_size chunk + of_nat new_size\<rparr>) \<and>
             length (sc_data chunk') = new_size \<and>
             (\<forall>i<new_size.
                sc_data chunk' ! i =
                  (if unat (wreq_offset req) \<le> i \<and>
                      i < unat (wreq_offset req) + length (wreq_data req)
                   then wreq_data req ! (i - unat (wreq_offset req))
                   else if i < length (sc_data chunk) then sc_data chunk ! i else 0)) \<and>
             sc_size chunk' = of_nat new_size \<and>
             sc_version chunk' = sc_version chunk + 1 \<and>
             sc_checksum chunk' = calculate_crc32 (sc_data chunk') \<and>
             sc_last_access chunk' = now \<and>
             sc_chunk_id chunk' = sc_chunk_id chunk \<and>
             sc_creation_time chunk' = sc_creation_time chunk))"
proof -
  define ns where "ns = max (unat (wreq_offset req) + length (wreq_data req)) (unat (sc_size chunk))"
  define bytes where
    "bytes = memcpy_at (unat (wreq_offset req)) (wreq_data req) (resize ns (sc_data chunk))"
  note eq = handle_write_present_eq [OF present no_wrap small ns_def bytes_def, of now]
  have fits: "unat (wreq_offset req) + length (wreq_data req) \<le> ns"
    by (simp add: ns_def)
  have len: "length bytes = ns"
    using fits by (simp add: bytes_def length_memcpy_at length_resize)
  have nth: "bytes ! i =
      (if unat (wreq_offset req) \<le> i \<and> i < unat (wreq_offset req) + length (wreq_data req)
       then wreq_data req ! (i - unat (wreq_offset req))
       else if i < length (sc_data chunk) then sc_data chunk ! i else 0)" if "i < ns" for i
    using that fits by (simp add: bytes_def nth_memcpy_at length_resize nth_resize)
  show ?thesis
    unfolding Let_def ns_def [symmetric]
  proof (intro conjI impI)
    show "handle_write now req S = Some (Inl OutOfCapacity, S) \<longleftrightarrow>
          (max_capacity S < used_capacity S + of_nat (length (wreq_data req)) \<or>
           max_capacity S < used_capacity S - sc_size chunk + of_nat ns)"
      by (simp add: eq)
  next
    assume "\<not> (max_capacity S < used_capacity S + of_nat (length (wreq_data req)) \<or>
                max_capacity S < used_capacity S - sc_size chunk + of_nat ns)"
    then have "handle_write now req S =
        Some (Inr (wreq_chunk_id req),
              S\<lparr>chunks := (chunks S)(wreq_chunk_id req \<mapsto>
                   chunk\<lparr>sc_data := bytes, sc_size := of_nat ns,
                         sc_version := sc_version chunk + 1, sc_last_access := now,
                         sc_checksum := calculate_crc32 bytes\<rparr>),
                used_capacity := used_capacity S - sc_size chunk + of_nat ns\<rparr>)"
      by (simp add: eq)
    then show "\<exists>chunk'.
             handle_write now req S =
               Some (Inr (wreq_chunk_id req),
                     S\<lparr>chunks := (chunks S)(wreq_chunk_id req \<mapsto> chunk'),
                       used_capacity := used_capacity S - sc_size chunk + of_nat ns\<rparr>) \<and>
             length (sc_data chunk') = ns \<and>
             (\<forall>i<ns.
                sc_data chunk' ! i =
                  (if unat (wreq_offset req) \<le> i \<and>
                      i < unat (wreq_offset req) + length (wreq_data req)
                   then wreq_data req ! (i - unat (wreq_offset req))
                   else if i < length (sc_data chunk) then sc_data chunk ! i else 0)) \<and>
             sc_size chunk' = of_nat ns \<and>
             sc_version chunk' = sc_version chunk + 1 \<and>
             sc_checksum chunk' = calculate_crc32 (sc_data chunk') \<and>
             sc_last_access chunk' = now \<and>
             sc_chunk_id chunk' = sc_chunk_id chunk \<and>
             sc_creation_time chunk' = sc_creation_time chunk"
      using len nth
      by (intro exI [of _ "chunk\<lparr>sc_data := bytes, sc_size := of_nat ns,
                         sc_version := sc_version chunk + 1, sc_last_access := now,
                         sc_checksum := calculate_crc32 bytes\<rparr>"]) simp
  qed
qed

text \<open>
  C3, as amended. For every write \<open>(chunk_id, offset, bytes)\<close> to a chunk that is absent:
  if \<open>used_capacity + len(bytes) > max_capacity\<close> (in \<^verbatim>\<open>uint64_t\<close>) the write fails with
  \<open>OutOfCapacity\<close> and leaves \<open>used_capacity\<close> and the chunk table unchanged; otherwise,
  whatever the offset, a chunk is created with \<open>version = 1\<close>, \<open>size = len(bytes)\<close>, the
  bytes stored from position 0, the CRC32 of the bytes as checksum, and \<open>used_capacity\<close>
  grows by \<open>len(bytes)\<close>.
\<close>

theorem handle_write_new_chunk:
  assumes absent: "chunks S (wreq_chunk_id req) = None"
  shows
    "(max_capacity S < used_capacity S + of_nat (length (wreq_data req)) \<longrightarrow>
        handle_write now req S = Some (Inl OutOfCapacity, S)) \<and>
     (\<not> max_capacity S < used_capacity S + of_nat (length (wreq_data req)) \<longrightarrow>
        handle_write now req S =
          Some (Inr (wreq_chunk_id req),
                S\<lparr>chunks := (chunks S)(wreq_chunk_id req \<mapsto>
                      \<lparr>sc_chunk_id = wreq_chunk_id req, sc_data = wreq_data req,
                       sc_version = 1, sc_size = of_nat (length (wreq_data req)),
                       sc_creation_time = now, sc_last_access = now,
                       sc_checksum = calculate_crc32 (wreq_data req)\<rparr>),
                  used_capacity := used_capacity S + of_nat (length (wreq_data req))\<rparr>))"
  using absent by (simp add: handle_write_def)

section \<open>Reads\<close>

lemma take_drop_map_nth:
  "off + n \<le> length xs \<Longrightarrow> take n (drop off xs) = map ((!) xs) [off ..< off + n]"
  by (simp add: list_eq_iff_nth_eq)

lemma unat_word_min: "unat (min a b) = min (unat a) (unat b)" for a b :: "'a::len word"
  by (simp add: min_def word_le_nat_alt)

text \<open>
  The three outcomes of \<^verbatim>\<open>handle_read\<close> in any state, the last for a chunk whose
  \<^verbatim>\<open>size\<close> is the length of its bytes and is below \<open>2^32\<close>.
\<close>

lemma handle_read_cases:
  "(chunks S (rreq_chunk_id req) = None \<longrightarrow> handle_read now req S = Some (Inl NotFound, S)) \<and>
   (\<forall>chunk. chunks S (rreq_chunk_id req) = Some chunk \<longrightarrow>
      (sc_size chunk \<le> ucast (rreq_offset req) \<longrightarrow>
         handle_read now req S = Some (Inl OutOfRange, S)) \<and>
      (ucast (rreq_offset req) < sc_size chunk \<longrightarrow>
       unat (sc_size chunk) = length (sc_data chunk) \<longrightarrow>
       length (sc_data chunk) < 2 ^ 32 \<longrightarrow>
         handle_read now req S =
           Some (Inr (map ((!) (sc_data chunk))
                        [unat (rreq_offset req) ..<
                           min (unat (rreq_offset req) + unat (rreq_length req))
                               (unat (sc_size chunk))]),
                 S\<lparr>chunks := (chunks S)(rreq_chunk_id req \<mapsto>
                      chunk\<lparr>sc_last_access := now\<rparr>)\<rparr>)))"
proof (intro conjI allI impI)
  assume "chunks S (rreq_chunk_id req) = None"
  then show "handle_read now req S = Some (Inl NotFound, S)"
    by (simp add: handle_read_def)
next
  fix chunk
  assume "chunks S (rreq_chunk_id req) = Some chunk" "sc_size chunk \<le> ucast (rreq_offset req)"
  then show "handle_read now req S = Some (Inl OutOfRange, S)"
    by (simp add: handle_read_def)
next
  fix chunk
  assume present: "chunks S (rreq_chunk_id req) = Some chunk"
     and inside: "ucast (rreq_offset req) < sc_size chunk"
     and size: "unat (sc_size chunk) = length (sc_data chunk)"
     and small: "length (sc_data chunk) < 2 ^ 32"
  let ?off = "unat (rreq_offset req)" and ?L = "length (sc_data chunk)"
  let ?s32 = "ucast (sc_size chunk) :: u32"
  have s32: "unat ?s32 = ?L"
    using small size by (simp add: unat_ucast_u64_u32)
  have off: "?off < ?L"
    using inside size by (simp add: word_less_nat_alt unat_ucast_u32_u64)
  then have "rreq_offset req \<le> ?s32"
    by (simp add: word_le_nat_alt s32)
  then have sub: "unat (?s32 - rreq_offset req) = ?L - ?off"
    by (simp add: unat_sub s32)
  let ?rs = "min (rreq_length req) (?s32 - rreq_offset req)"
  have rs: "unat ?rs = min (unat (rreq_length req)) (?L - ?off)"
    by (simp add: unat_word_min sub)
  have bound: "?off + unat ?rs \<le> ?L"
    using off by (simp add: rs)
  have "?off + min (unat (rreq_length req)) (?L - ?off) = min (?off + unat (rreq_length req)) ?L"
    using off by arith
  then have upper: "?off + unat ?rs = min (?off + unat (rreq_length req)) (unat (sc_size chunk))"
    by (simp only: rs size)
  have "take (unat ?rs) (drop ?off (sc_data chunk)) =
        map ((!) (sc_data chunk)) [?off ..< ?off + unat ?rs]"
    using bound by (rule take_drop_map_nth)
  then show "handle_read now req S =
           Some (Inr (map ((!) (sc_data chunk))
                        [unat (rreq_offset req) ..<
                           min (unat (rreq_offset req) + unat (rreq_length req))
                               (unat (sc_size chunk))]),
                 S\<lparr>chunks := (chunks S)(rreq_chunk_id req \<mapsto>
                      chunk\<lparr>sc_last_access := now\<rparr>)\<rparr>)"
    using present inside bound unfolding upper [symmetric]
    by (simp add: handle_read_def Let_def not_le [symmetric] del: not_le)
qed


lemma handle_write_small:
  assumes "chunks_small S" "length (wreq_data req) < 2 ^ 32"
      and "handle_write now req S = Some (r, S')"
  shows "chunks_small S'"
proof -
  have bound: "unat (ucast (x :: u32) :: u64) < 2 ^ 32" for x
    using unsigned_less [of x] by (simp add: unat_ucast_u32_u64)
  show ?thesis
    using assms bound
    by (auto simp: handle_write_def chunks_small_def Let_def length_memcpy_at length_resize
        split: if_splits option.splits)
qed

lemma handle_read_small:
  assumes "chunks_small S" "handle_read now req S = Some (r, S')"
  shows "chunks_small S'"
  using assms
  by (auto simp: handle_read_def chunks_small_def Let_def split: if_splits option.splits)

lemma delete_chunk_small:
  assumes "chunks_small S"
  shows "chunks_small (snd (delete_chunk cid S))"
  using assms
  by (auto simp: delete_chunk_def chunks_small_def split: if_splits option.splits)

lemma exec_op_small:
  "chunks_small S \<Longrightarrow> write_fits x \<Longrightarrow> exec_op x S = Some S' \<Longrightarrow> chunks_small S'"
  by (cases x) (auto dest: handle_write_small handle_read_small simp: delete_chunk_small)

lemma run_ops_small:
  "chunks_small S \<Longrightarrow> list_all write_fits xs \<Longrightarrow> run_ops xs S = Some S' \<Longrightarrow> chunks_small S'"
  by (induction xs arbitrary: S) (auto split: option.splits dest: exec_op_small)

lemma init_small: "chunks_small (ChunkServer_init mc)"
  by (simp add: chunks_small_def ChunkServer_init_def)

text \<open>
  C4. In every state that the chunk server reaches from its initial state by writes,
  reads and deletes of the protocol, for every read \<open>(chunk_id, offset, length)\<close>: if the
  chunk is absent the result is \<open>NotFound\<close>; if the chunk is present and \<open>offset \<ge> size\<close>
  the result is \<open>OutOfRange\<close>; otherwise the read succeeds, the data returned are exactly
  the chunk's bytes at the positions \<open>[offset, min (offset + length) size)\<close>, possibly
  fewer than \<open>length\<close>, and \<open>last_access\<close> is the time of the read. Here \<open>size\<close> is the
  length of the chunk's bytes.
\<close>

theorem handle_read_reachable:
  assumes run: "run_ops ops (ChunkServer_init mc) = Some S"
      and fits: "list_all write_fits ops"
  shows
   "(chunks S (rreq_chunk_id req) = None \<longrightarrow> handle_read now req S = Some (Inl NotFound, S)) \<and>
    (\<forall>chunk. chunks S (rreq_chunk_id req) = Some chunk \<longrightarrow>
       unat (sc_size chunk) = length (sc_data chunk) \<and>
       (unat (sc_size chunk) \<le> unat (rreq_offset req) \<longrightarrow>
          handle_read now req S = Some (Inl OutOfRange, S)) \<and>
       (unat (rreq_offset req) < unat (sc_size chunk) \<longrightarrow>
          handle_read now req S =
            Some (Inr (map ((!) (sc_data chunk))
                         [unat (rreq_offset req) ..<
                            min (unat (rreq_offset req) + unat (rreq_length req))
                                (unat (sc_size chunk))]),
                  S\<lparr>chunks := (chunks S)(rreq_chunk_id req \<mapsto>
                       chunk\<lparr>sc_last_access := now\<rparr>)\<rparr>)))"
proof (intro conjI allI impI)
  assume "chunks S (rreq_chunk_id req) = None"
  then show "handle_read now req S = Some (Inl NotFound, S)"
    using handle_read_cases [of S req now] by simp
next
  fix chunk
  assume present: "chunks S (rreq_chunk_id req) = Some chunk"
  have inv: "server_inv S" using run_ops_inv [OF init_inv run] .
  have small: "chunks_small S" using run_ops_small [OF init_small fits run] .
  have len: "length (sc_data chunk) < 2 ^ 32"
    using small present by (auto simp: chunks_small_def)
  then have len64: "length (sc_data chunk) < 2 ^ 64"
    by (rule less_trans) simp
  have "sc_size chunk = of_nat (length (sc_data chunk))"
    using inv present by (auto simp: server_inv_def chunk_ok_def)
  then show size: "unat (sc_size chunk) = length (sc_data chunk)"
    using len64 by (simp add: unat_of_nat)
  {
    assume "unat (sc_size chunk) \<le> unat (rreq_offset req)"
    then have "sc_size chunk \<le> ucast (rreq_offset req)"
      by (simp add: word_le_nat_alt unat_ucast_u32_u64)
    then show "handle_read now req S = Some (Inl OutOfRange, S)"
      using handle_read_cases [of S req now] present by simp
  }
  {
    assume "unat (rreq_offset req) < unat (sc_size chunk)"
    then have "ucast (rreq_offset req) < sc_size chunk"
      by (simp add: word_less_nat_alt unat_ucast_u32_u64)
    then show "handle_read now req S =
            Some (Inr (map ((!) (sc_data chunk))
                         [unat (rreq_offset req) ..<
                            min (unat (rreq_offset req) + unat (rreq_length req))
                                (unat (sc_size chunk))]),
                  S\<lparr>chunks := (chunks S)(rreq_chunk_id req \<mapsto>
                       chunk\<lparr>sc_last_access := now\<rparr>)\<rparr>)"
      using handle_read_cases [of S req now] present size len by simp
  }
qed


section \<open>The chunk server on the example states\<close>

lemmas example_defs = offset5_state_def
  abcde_chunk_def abcde_state_def gap_write_def full_chunk_def full_state_def
  write_of_def read_of_def big_chunk_def big_state_def

lemma abcde_state_reached:
  "handle_write 100 (write_of 42 0 [0x41, 0x42, 0x43, 0x44, 0x45]) (ChunkServer_init 1000000) =
   Some (Inr 42, abcde_state)"
  by (simp add: example_defs chunk_server_eval crc32_eval)

lemma full_state_reached:
  "handle_write 1 (write_of 1 0 [1, 2, 3, 4, 5, 6, 7, 8]) (ChunkServer_init 10) =
   Some (Inr 1, full_state)"
  by (simp add: example_defs chunk_server_eval crc32_eval)

lemma big_state_reached:
  "handle_write 1 (write_of 1 0 (replicate (2 ^ 32) 0)) (ChunkServer_init (2 ^ 33)) =
   Some (Inr 1, big_state)"
  by (simp add: example_defs chunk_server_eval)

theorem handle_write_existing_chunk_counterexample:
  "handle_write 1 (write_of 1 0 [1, 2, 3, 4, 5, 6, 7, 8]) (ChunkServer_init 10) =
     Some (Inr 1, full_state) \<and>
   chunks full_state 1 = Some full_chunk \<and>
   handle_write 2 (write_of 1 0 [9, 9, 9, 9, 9]) full_state = Some (Inl OutOfCapacity, full_state) \<and>
   \<not> max_capacity full_state <
       used_capacity full_state - sc_size full_chunk +
       of_nat (max (unat (wreq_offset (write_of 1 0 [9, 9, 9, 9, 9])) +
                    length (wreq_data (write_of 1 0 [9, 9, 9, 9, 9])))
                   (unat (sc_size full_chunk)))"
  using full_state_reached by (simp add: example_defs chunk_server_eval)

theorem handle_write_new_chunk_counterexample:
  "chunks (ChunkServer_init 10) 2 = None \<and>
   wreq_offset (write_of 2 5 [1, 2, 3]) \<noteq> 0 \<and>
   handle_write 1 (write_of 2 5 [1, 2, 3]) (ChunkServer_init 10) =
     Some (Inr 2, offset5_state)"
  by (simp add: example_defs chunk_server_eval)

text \<open>
  Beyond the writes of the protocol: a single write of \<open>2^32\<close> bytes, on a server of
  capacity \<open>2^33\<close>, makes a chunk whose size does not fit the 32 bits in which
  \<^verbatim>\<open>handle_read\<close> computes; a read of its first ten bytes returns none.
\<close>

lemma handle_read_four_gib_chunk:
  "handle_write 1 (write_of 1 0 (replicate (2 ^ 32) 0)) (ChunkServer_init (2 ^ 33)) =
     Some (Inr 1, big_state) \<and>
   chunks big_state 1 = Some big_chunk \<and>
   ucast (rreq_offset (read_of 1 0 10)) < sc_size big_chunk \<and>
   handle_read 2 (read_of 1 0 10) big_state =
     Some (Inr [], big_state\<lparr>chunks := (chunks big_state)(1 \<mapsto> big_chunk\<lparr>sc_last_access := 2\<rparr>)\<rparr>) \<and>
   length (map ((!) (sc_data big_chunk))
             [unat (rreq_offset (read_of 1 0 10)) ..<
                min (unat (rreq_offset (read_of 1 0 10)) + unat (rreq_length (read_of 1 0 10)))
                    (unat (sc_size big_chunk))]) = 10"
  using big_state_reached by (simp add: example_defs chunk_server_eval)

theorem handle_write_existing_chunk_witness:
  "chunks abcde_state (wreq_chunk_id gap_write) = Some abcde_chunk \<and>
   unat (wreq_offset gap_write) + length (wreq_data gap_write) < 2 ^ 32 \<and>
   unat (sc_size abcde_chunk) < 2 ^ 32 \<and>
   handle_write 102 gap_write abcde_state \<noteq> Some (Inl OutOfCapacity, abcde_state) \<and>
   (\<exists>chunk'.
      handle_write 102 gap_write abcde_state =
        Some (Inr 42, abcde_state\<lparr>chunks := (chunks abcde_state)(42 \<mapsto> chunk'),
                                  used_capacity := 7\<rparr>) \<and>
      length (sc_data chunk') = 7 \<and>
      sc_data chunk' ! 4 = 0x45 \<and> sc_data chunk' ! 5 = 0 \<and> sc_data chunk' ! 6 = 0x46 \<and>
      sc_size chunk' = 7 \<and> sc_version chunk' = 2 \<and> sc_last_access chunk' = 102 \<and>
      sc_checksum chunk' = calculate_crc32 (sc_data chunk'))"
proof -
  have h1: "chunks abcde_state (wreq_chunk_id gap_write) = Some abcde_chunk"
    by (simp add: example_defs)
  have h2: "unat (wreq_offset gap_write) + length (wreq_data gap_write) < 2 ^ 32"
    by (simp add: example_defs)
  have h3: "unat (sc_size abcde_chunk) < 2 ^ 32"
    by (simp add: example_defs)
  show ?thesis
    using h1 h2 h3 handle_write_existing_chunk [OF h1 h2 h3, of 102]
    by (auto simp: Let_def example_defs)
qed

theorem handle_write_new_chunk_witness:
  "chunks full_state (wreq_chunk_id (write_of 2 0 [1, 2, 3, 4, 5])) = None \<and>
   handle_write 2 (write_of 2 0 [1, 2, 3, 4, 5]) full_state = Some (Inl OutOfCapacity, full_state) \<and>
   used_capacity full_state = 8 \<and> chunks full_state 2 = None \<and>
   chunks (ChunkServer_init 1000000) (wreq_chunk_id (write_of 42 0 [0x41, 0x42, 0x43, 0x44, 0x45])) = None \<and>
   handle_write 100 (write_of 42 0 [0x41, 0x42, 0x43, 0x44, 0x45]) (ChunkServer_init 1000000) =
     Some (Inr 42, abcde_state)"
proof -
  have h1: "chunks full_state (wreq_chunk_id (write_of 2 0 [1, 2, 3, 4, 5])) = None"
    by (simp add: example_defs)
  have h2: "chunks (ChunkServer_init 1000000)
              (wreq_chunk_id (write_of 42 0 [0x41, 0x42, 0x43, 0x44, 0x45])) = None"
    by (simp add: example_defs ChunkServer_init_def)
  show ?thesis
    using h1 h2 handle_write_new_chunk [OF h1, of 2] handle_write_new_chunk [OF h2, of 100]
    by (simp add: example_defs ChunkServer_init_def crc32_eval)
qed

theorem handle_read_reachable_witness:
  "run_ops [Write 100 (write_of 42 0 [0x41, 0x42, 0x43, 0x44, 0x45])] (ChunkServer_init 1000000) =
     Some abcde_state \<and>
   list_all write_fits [Write 100 (write_of 42 0 [0x41, 0x42, 0x43, 0x44, 0x45])] \<and>
   chunks abcde_state 43 = None \<and>
   handle_read 101 (read_of 43 0 10) abcde_state = Some (Inl NotFound, abcde_state) \<and>
   chunks abcde_state 42 = Some abcde_chunk \<and>
   unat (sc_size abcde_chunk) = 5 \<and>
   handle_read 101 (read_of 42 5 10) abcde_state = Some (Inl OutOfRange, abcde_state) \<and>
   handle_read 101 (read_of 42 0 10) abcde_state =
     Some (Inr [0x41, 0x42, 0x43, 0x44, 0x45],
           abcde_state\<lparr>chunks := (chunks abcde_state)(42 \<mapsto> abcde_chunk\<lparr>sc_last_access := 101\<rparr>)\<rparr>) \<and>
   handle_read 101 (read_of 42 1 2) abcde_state =
     Some (Inr [0x42, 0x43],
           abcde_state\<lparr>chunks := (chunks abcde_state)(42 \<mapsto> abcde_chunk\<lparr>sc_last_access := 101\<rparr>)\<rparr>)"
proof -
  have run: "run_ops [Write 100 (write_of 42 0 [0x41, 0x42, 0x43, 0x44, 0x45])]
               (ChunkServer_init 1000000) = Some abcde_state"
    using abcde_state_reached by simp
  have fits: "list_all write_fits [Write 100 (write_of 42 0 [0x41, 0x42, 0x43, 0x44, 0x45])]"
    by (simp add: write_of_def)
  show ?thesis
    using run fits
          handle_read_reachable [OF run fits, of "read_of 43 0 10" 101]
          handle_read_reachable [OF run fits, of "read_of 42 5 10" 101]
          handle_read_reachable [OF run fits, of "read_of 42 0 10" 101]
          handle_read_reachable [OF run fits, of "read_of 42 1 2" 101]
    by (simp add: example_defs)
qed


section \<open>The wire codec\<close>

lemma le_bytes_4:
  "le_bytes 4 w = [ucast w, ucast (drop_bit 8 w), ucast (drop_bit 16 w), ucast (drop_bit 24 w)]"
  by (simp add: eval_nat_numeral)

lemma le_bytes_2: "le_bytes 2 w = [ucast w, ucast (drop_bit 8 w)]"
  by (simp add: eval_nat_numeral)

lemma le_word_le_bytes_u32: "le_word (le_bytes 4 w) = (w :: u32)"
  apply (simp add: le_bytes_4)
  apply (rule bit_eqI)
  apply (auto simp add: bit_simps)
  subgoal for n by (cases "24 \<le> n") simp_all
  done

lemma le_word_le_bytes_u16: "le_word (le_bytes 2 w) = (w :: u16)"
  apply (simp add: le_bytes_2)
  apply (rule bit_eqI)
  apply (auto simp add: bit_simps)
  done

lemmas codec_eval =
  header_bytes_def payload_bytes_def sizeof_ProtocolFrame_def memcpy_header_def
  memcpy_payload_def send_data_def recv_data_def send_frame_def recv_frame_def
  DFS_CHUNK_SIZE_BYTES_def DFS_CHUNK_SIZE_MB_def DFS_PROTOCOL_MAGIC_def DFS_PROTOCOL_VERSION_def
  OP_WRITE_def Let_def le_bytes_4 le_bytes_2

lemmas frame_examples =
  array_of_def zero_frame_def hello_frame_def hello_wire_def full_frame_def socket_with_def

lemma payload_bytes_memcpy_payload:
  "n \<le> length src \<Longrightarrow> payload_bytes (memcpy_payload src n f) n = take n src"
  by (simp add: payload_bytes_def memcpy_payload_def)

lemma recv_frame_closed_form:
  assumes fd: "0 \<le> socket_fd sock"
      and hdr: "16 \<le> length (inbound sock)"
      and header: "header = memcpy_header (take 16 (inbound sock)) frame"
      and n: "n = unat (pf_payload_size header)"
      and body: "body = take n (drop 16 (inbound sock))"
  shows "recv_frame frame sock =
    (if pf_magic header \<noteq> DFS_PROTOCOL_MAGIC
     then Some (False, header, sock\<lparr>inbound := drop 16 (inbound sock)\<rparr>)
     else if length (inbound sock) < 16 + n \<or> unat DFS_CHUNK_SIZE_BYTES < n then None
     else if calculate_crc32 body \<noteq> pf_checksum header
     then Some (False, memcpy_payload body n header,
                sock\<lparr>inbound := drop (16 + n) (inbound sock)\<rparr>)
     else Some (True, memcpy_payload body n header,
                sock\<lparr>inbound := drop (16 + n) (inbound sock)\<rparr>))"
proof -
  have first: "recv_data [] 16 sock =
      (True, take 16 (inbound sock), sock\<lparr>inbound := drop 16 (inbound sock)\<rparr>)"
    using fd by (simp add: recv_data_def)
  have len16: "length (take 16 (inbound sock)) = 16"
    using hdr by simp
  have second: "recv_data [] n (sock\<lparr>inbound := drop 16 (inbound sock)\<rparr>) =
      (True, body, sock\<lparr>inbound := drop (16 + n) (inbound sock)\<rparr>)"
    using fd by (simp add: recv_data_def body add.commute)
  have fields: "pf_payload_size (memcpy_payload body n header) = pf_payload_size header"
               "pf_checksum (memcpy_payload body n header) = pf_checksum header"
    by (simp_all add: memcpy_payload_def)
  have lb: "length body = min n (length (inbound sock) - 16)"
    by (simp add: body)
  have pb: "payload_bytes (memcpy_payload body n header) n = body"
    if "16 + n \<le> length (inbound sock)"
    using that lb by (simp add: payload_bytes_memcpy_payload)
  show ?thesis
    using len16 lb hdr pb
    unfolding recv_frame_def first
    by (auto simp: header [symmetric] n [symmetric] second fields Let_def)
qed

text \<open>
  C6, as amended. On decoding from a connection that has delivered a header, the receiver
  verifies the magic value \<^verbatim>\<open>0xDEADBEEF\<close> first: on a mismatch it rejects the frame
  (\<^verbatim>\<open>recv_frame\<close> returns false) having consumed the 16 header bytes and nothing of what
  follows. With the right magic, a payload size within \<^verbatim>\<open>DFS_CHUNK_SIZE_BYTES\<close> and the
  payload delivered, it verifies the CRC32 of the received payload last, rejects the frame
  on a mismatch and accepts it otherwise, having consumed exactly the header and the
  payload. The protocol version and the bound on the payload size are not verified, and on
  a rejection the caller's frame object holds the bytes read so far.
\<close>

theorem recv_frame_verifies:
  assumes fd: "0 \<le> socket_fd sock"
      and hdr: "16 \<le> length (inbound sock)"
  shows
    "let header = memcpy_header (take 16 (inbound sock)) frame;
         n = unat (pf_payload_size header);
         body = take n (drop 16 (inbound sock));
         received = memcpy_payload body n header
     in (pf_magic header \<noteq> DFS_PROTOCOL_MAGIC \<longrightarrow>
           recv_frame frame sock =
             Some (False, header, sock\<lparr>inbound := drop 16 (inbound sock)\<rparr>)) \<and>
        (pf_magic header = DFS_PROTOCOL_MAGIC \<longrightarrow>
         n \<le> unat DFS_CHUNK_SIZE_BYTES \<longrightarrow> 16 + n \<le> length (inbound sock) \<longrightarrow>
           (calculate_crc32 body \<noteq> pf_checksum header \<longrightarrow>
              recv_frame frame sock =
                Some (False, received, sock\<lparr>inbound := drop (16 + n) (inbound sock)\<rparr>)) \<and>
           (calculate_crc32 body = pf_checksum header \<longrightarrow>
              recv_frame frame sock =
                Some (True, received, sock\<lparr>inbound := drop (16 + n) (inbound sock)\<rparr>)))"
  unfolding Let_def
  by (simp add: recv_frame_closed_form [OF fd hdr refl refl refl])

lemmas wire_examples = bad_magic_wire_def bad_crc_wire_def version2_wire_def

lemmas frame_eval =
  header_bytes_def payload_bytes_def sizeof_ProtocolFrame_def memcpy_header_def
  memcpy_payload_def DFS_CHUNK_SIZE_BYTES_def DFS_CHUNK_SIZE_MB_def DFS_PROTOCOL_MAGIC_def
  DFS_PROTOCOL_VERSION_def OP_WRITE_def Let_def le_bytes_4 le_bytes_2

theorem recv_frame_verifies_witness:
  "0 \<le> socket_fd (socket_with bad_magic_wire) \<and>
   16 \<le> length (inbound (socket_with bad_magic_wire)) \<and>
   map_option fst (recv_frame zero_frame (socket_with bad_magic_wire)) = Some False \<and>
   map_option (inbound \<circ> snd \<circ> snd) (recv_frame zero_frame (socket_with bad_magic_wire)) =
     Some [0x48, 0x65, 0x6C, 0x6C, 0x6F] \<and>
   0 \<le> socket_fd (socket_with bad_crc_wire) \<and>
   16 \<le> length (inbound (socket_with bad_crc_wire)) \<and>
   map_option fst (recv_frame zero_frame (socket_with bad_crc_wire)) = Some False \<and>
   map_option (inbound \<circ> snd \<circ> snd) (recv_frame zero_frame (socket_with bad_crc_wire)) = Some [] \<and>
   0 \<le> socket_fd (socket_with hello_wire) \<and>
   16 \<le> length (inbound (socket_with hello_wire)) \<and>
   map_option fst (recv_frame zero_frame (socket_with hello_wire)) = Some True \<and>
   map_option (inbound \<circ> snd \<circ> snd) (recv_frame zero_frame (socket_with hello_wire)) = Some []"
  using recv_frame_verifies [of "socket_with bad_magic_wire" zero_frame]
        recv_frame_verifies [of "socket_with bad_crc_wire" zero_frame]
        recv_frame_verifies [of "socket_with hello_wire" zero_frame]
  by (simp add: frame_eval frame_examples wire_examples crc32_eval)

theorem recv_frame_verifies_counterexample:
  "map_option fst (recv_frame zero_frame (socket_with version2_wire)) = Some True \<and>
   map_option (pf_version \<circ> fst \<circ> snd) (recv_frame zero_frame (socket_with version2_wire)) = Some 2 \<and>
   DFS_PROTOCOL_VERSION \<noteq> 2 \<and>
   map_option fst (recv_frame zero_frame (socket_with bad_magic_wire)) = Some False \<and>
   map_option (pf_magic \<circ> fst \<circ> snd) (recv_frame zero_frame (socket_with bad_magic_wire)) =
     Some 0xDEADBEEE \<and>
   pf_magic zero_frame = 0"
  by (simp add: recv_frame_def recv_data_def frame_eval frame_examples wire_examples crc32_eval)

lemma hello_crc: "calculate_crc32 [0x48, 0x65, 0x6C, 0x6C, 0x6F] = 0xF7D18982"
  by (simp add: crc32_eval)

lemma replicate_4: "replicate 4 x = [x, x, x, x]"
  by (simp add: eval_nat_numeral)

text \<open>
  C5 says that decoding the encoding of a frame yields the frame, for every frame with a
  valid magic value, a checksum equal to the CRC32 of its payload and a payload size
  within bound. \<^verbatim>\<open>send_frame\<close> counts 20 header bytes where the header has 16, so it sends
  four bytes more than the header and the payload. For a frame whose payload fills the
  array, these four bytes lie past the end of the frame object and the encoding is
  undefined. For the \<^verbatim>\<open>"Hello"\<close> frame the encoding is the 21 bytes of the protocol and
  four more; the receiver decodes the first frame of two sent back to back, leaves the
  four bytes on the connection, and then rejects the second frame.
\<close>

theorem send_frame_header_count:
  "pf_magic full_frame = DFS_PROTOCOL_MAGIC \<and>
   pf_payload_size full_frame \<le> DFS_CHUNK_SIZE_BYTES \<and>
   pf_checksum full_frame =
     calculate_crc32 (payload_bytes full_frame (unat (pf_payload_size full_frame))) \<and>
   send_frame full_frame (socket_with []) = None \<and>
   send_frame hello_frame (socket_with []) =
     Some (True, (socket_with [])\<lparr>outbound := hello_wire @ [0, 0, 0, 0]\<rparr>) \<and>
   map_option fst
     (recv_frame zero_frame (socket_with (hello_wire @ [0, 0, 0, 0] @ hello_wire @ [0, 0, 0, 0]))) =
     Some True \<and>
   map_option (inbound \<circ> snd \<circ> snd)
     (recv_frame zero_frame (socket_with (hello_wire @ [0, 0, 0, 0] @ hello_wire @ [0, 0, 0, 0]))) =
     Some ([0, 0, 0, 0] @ hello_wire @ [0, 0, 0, 0]) \<and>
   map_option fst (recv_frame zero_frame (socket_with ([0, 0, 0, 0] @ hello_wire @ [0, 0, 0, 0]))) =
     Some False"
  by (simp add: send_frame_def send_data_def recv_frame_def recv_data_def frame_eval frame_examples
        zero_payload_crc_def hello_crc replicate_4)

lemma length_le_bytes: "length (le_bytes n w) = n"
  by (induction n arbitrary: w) simp_all

lemma length_header_bytes: "length (header_bytes f) = 16"
  by (simp add: header_bytes_def length_le_bytes)

lemma memcpy_header_header_bytes:
  "memcpy_header (header_bytes f) f0 =
     f0\<lparr>pf_magic := pf_magic f, pf_version := pf_version f,
        pf_message_type := pf_message_type f, pf_payload_size := pf_payload_size f,
        pf_checksum := pf_checksum f\<rparr>"
proof -
  have "take 4 (header_bytes f) = le_bytes 4 (pf_magic f)"
       "take 2 (drop 4 (header_bytes f)) = le_bytes 2 (pf_version f)"
       "take 2 (drop 6 (header_bytes f)) = le_bytes 2 (pf_message_type f)"
       "take 4 (drop 8 (header_bytes f)) = le_bytes 4 (pf_payload_size f)"
       "take 4 (drop 12 (header_bytes f)) = le_bytes 4 (pf_checksum f)"
    by (simp_all add: header_bytes_def length_le_bytes)
  then show ?thesis
    by (simp add: memcpy_header_def le_word_le_bytes_u32 le_word_le_bytes_u16)
qed

text \<open>
  What holds of the round trip: a frame with at least four bytes of its payload array
  beyond the payload is sent as its header, its payload and those four bytes; from these
  bytes the receiver rebuilds the header and the payload of the frame, and leaves the four
  bytes unread on the connection.
\<close>

lemma send_frame_bytes:
  assumes room: "unat (pf_payload_size f) + 4 \<le> unat DFS_CHUNK_SIZE_BYTES"
      and fd: "0 \<le> socket_fd sock"
  shows "send_frame f sock =
     Some (True, sock\<lparr>outbound := outbound sock @ header_bytes f @
                        payload_bytes f (unat (pf_payload_size f) + 4)\<rparr>)"
  using room fd by (simp add: send_frame_def send_data_def sizeof_ProtocolFrame_def add.commute)

lemma recv_sent_frame:
  assumes magic: "pf_magic f = DFS_PROTOCOL_MAGIC"
      and crc: "pf_checksum f = calculate_crc32 (payload_bytes f (unat (pf_payload_size f)))"
      and room: "unat (pf_payload_size f) + 4 \<le> unat DFS_CHUNK_SIZE_BYTES"
      and array: "length (pf_payload f) = unat DFS_CHUNK_SIZE_BYTES"
      and fd: "0 \<le> socket_fd sock"
      and wire: "inbound sock = header_bytes f @ payload_bytes f (unat (pf_payload_size f) + 4)"
  shows "recv_frame f0 sock =
     Some (True,
           f0\<lparr>pf_magic := pf_magic f, pf_version := pf_version f,
              pf_message_type := pf_message_type f, pf_payload_size := pf_payload_size f,
              pf_checksum := pf_checksum f,
              pf_payload := payload_bytes f (unat (pf_payload_size f)) @
                            drop (unat (pf_payload_size f)) (pf_payload f0)\<rparr>,
           sock\<lparr>inbound := take 4 (drop (unat (pf_payload_size f)) (pf_payload f))\<rparr>)"
proof -
  let ?n = "unat (pf_payload_size f)"
  let ?header = "memcpy_header (take 16 (inbound sock)) f0"
  have t16: "take 16 (inbound sock) = header_bytes f"
    by (simp add: wire length_header_bytes)
  have d16: "drop 16 (inbound sock) = payload_bytes f (?n + 4)"
    by (simp add: wire length_header_bytes)
  have header: "?header =
     f0\<lparr>pf_magic := pf_magic f, pf_version := pf_version f,
        pf_message_type := pf_message_type f, pf_payload_size := pf_payload_size f,
        pf_checksum := pf_checksum f\<rparr>"
    by (simp only: t16 memcpy_header_header_bytes)
  have n: "unat (pf_payload_size ?header) = ?n"
    by (simp add: header)
  have body: "take ?n (drop 16 (inbound sock)) = payload_bytes f ?n"
    by (simp add: d16 payload_bytes_def min_def)
  have len: "length (inbound sock) = 16 + (?n + 4)"
    using room array by (simp add: wire length_header_bytes payload_bytes_def)
  have rest: "drop (16 + ?n) (inbound sock) = take 4 (drop ?n (pf_payload f))"
    using room array
    by (simp add: wire length_header_bytes payload_bytes_def drop_take)
  have "16 \<le> length (inbound sock)" by (simp add: len)
  note cf = recv_frame_closed_form [OF fd this refl refl refl, of f0]
  show ?thesis
    using room magic crc
    unfolding cf n body rest
    by (simp add: header len memcpy_payload_def payload_bytes_def)
qed

section \<open>Deleting a chunk\<close>

lemma delete_chunk_twice:
  "snd (delete_chunk cid (snd (delete_chunk cid S))) = snd (delete_chunk cid S)"
  by (simp add: delete_chunk_def split: option.splits)

lemma process_message_delete:
  assumes "pf_message_type frame = OP_DELETE"
      and "unat (pf_payload_size response) \<le> unat DFS_CHUNK_SIZE_BYTES"
  shows "process_message env now frame response S =
     Some (True,
           response\<lparr>pf_magic := DFS_PROTOCOL_MAGIC, pf_version := DFS_PROTOCOL_VERSION,
                    pf_message_type := OP_ACK,
                    pf_checksum :=
                      calculate_crc32 (payload_bytes response (unat (pf_payload_size response)))\<rparr>,
           snd (delete_chunk (le_word (payload_bytes frame 8)) S))"
  using assms
  by (simp add: process_message_def dispatch_message_def payload_bytes_def
        OP_DELETE_def OP_READ_def OP_WRITE_def)

text \<open>
  What holds of deletion. \<^verbatim>\<open>delete_chunk\<close> removes a chunk that is present and
  subtracts its size from \<^verbatim>\<open>used_capacity\<close>, and changes nothing when the chunk is
  absent; deleting the same chunk twice leaves the server as deleting it once. For a
  response object whose \<^verbatim>\<open>payload_size\<close> lies within its payload array,
  \<^verbatim>\<open>process_message\<close> answers an \<^verbatim>\<open>OP_DELETE\<close> frame with success and an \<^verbatim>\<open>OP_ACK\<close>
  response whether or not the chunk is present, and answering the same frame a second
  time leaves the server as the first answer left it.
\<close>

lemma delete_chunk_and_ack:
  "(\<forall>c. chunks S cid = Some c \<longrightarrow>
      delete_chunk cid S =
        (True, S\<lparr>used_capacity := used_capacity S - sc_size c,
                 chunks := (chunks S)(cid := None)\<rparr>)) \<and>
   (chunks S cid = None \<longrightarrow> delete_chunk cid S = (False, S)) \<and>
   snd (delete_chunk cid (snd (delete_chunk cid S))) = snd (delete_chunk cid S) \<and>
   (pf_message_type frame = OP_DELETE \<longrightarrow>
    unat (pf_payload_size response) \<le> unat DFS_CHUNK_SIZE_BYTES \<longrightarrow>
      (\<exists>response'.
         process_message env now frame response S =
           Some (True, response', snd (delete_chunk (le_word (payload_bytes frame 8)) S)) \<and>
         pf_message_type response' = OP_ACK)) \<and>
   (pf_message_type frame = OP_DELETE \<longrightarrow>
    unat (pf_payload_size response) \<le> unat DFS_CHUNK_SIZE_BYTES \<longrightarrow>
    unat (pf_payload_size other_response) \<le> unat DFS_CHUNK_SIZE_BYTES \<longrightarrow>
      (\<exists>r1 r2 S1.
         process_message env now frame response S = Some (True, r1, S1) \<and>
         process_message env later frame other_response S1 = Some (True, r2, S1)))"
  by (auto simp: delete_chunk_def process_message_delete delete_chunk_twice split: option.splits)

lemma process_message_delete_overrun:
  assumes "pf_message_type frame = OP_DELETE"
      and "unat DFS_CHUNK_SIZE_BYTES < unat (pf_payload_size response)"
  shows "process_message env now frame response S = None"
  using assms
  by (simp add: process_message_def dispatch_message_def OP_DELETE_def OP_READ_def OP_WRITE_def)

lemma le_bytes_8:
  "le_bytes 8 w = [ucast w, ucast (drop_bit 8 w), ucast (drop_bit 16 w), ucast (drop_bit 24 w),
                   ucast (drop_bit 32 w), ucast (drop_bit 40 w), ucast (drop_bit 48 w),
                   ucast (drop_bit 56 w)]"
  by (simp add: eval_nat_numeral)

lemma delete_frame_facts:
  "pf_message_type (delete_frame cid) = OP_DELETE"
  "unat (pf_payload_size zero_frame) \<le> unat DFS_CHUNK_SIZE_BYTES"
  "unat DFS_CHUNK_SIZE_BYTES < unat (pf_payload_size stale_response)"
  by (simp_all add: delete_frame_def zero_frame_def stale_response_def
        DFS_CHUNK_SIZE_BYTES_def DFS_CHUNK_SIZE_MB_def)

lemma delete_frame_chunk_id: "le_word (payload_bytes (delete_frame 42) 8) = (42 :: u64)"
  by (simp add: delete_frame_def payload_bytes_def array_of_def le_bytes_8)

text \<open>
  C7 says that \<^verbatim>\<open>OP_DELETE\<close> is acked as success whether or not the chunk is present,
  that a chunk that is present is removed and its size subtracted from
  \<^verbatim>\<open>used_capacity\<close>, and that two deletes leave the state of one. \<^verbatim>\<open>delete_chunk\<close> does
  remove the chunk. But \<^verbatim>\<open>process_message\<close> computes the checksum of every response over
  \<^verbatim>\<open>response.payload_size\<close> bytes, a field that the \<^verbatim>\<open>OP_READ\<close> and \<^verbatim>\<open>OP_WRITE\<close> branches
  set and the \<^verbatim>\<open>OP_DELETE\<close> branch does not, and that the call site leaves uninitialised.
  With a value beyond the payload array the checksum reads past the end of the response
  object, whether the chunk is present (chunk 42) or absent (chunk 43): the behaviour is
  undefined and no ack is produced. With the value 0 the same frame is acked.
\<close>

theorem process_message_delete_unset_size:
  "pf_message_type (delete_frame 42) = OP_DELETE \<and>
   chunks abcde_state 42 = Some abcde_chunk \<and>
   chunks abcde_state 43 = None \<and>
   delete_chunk 42 abcde_state =
     (True, abcde_state\<lparr>used_capacity := 0, chunks := (chunks abcde_state)(42 := None)\<rparr>) \<and>
   process_message example_layout 200 (delete_frame 42) stale_response abcde_state = None \<and>
   process_message example_layout 200 (delete_frame 43) stale_response abcde_state = None \<and>
   map_option fst (process_message example_layout 200 (delete_frame 42) zero_frame abcde_state) =
     Some True \<and>
   map_option (snd \<circ> snd)
     (process_message example_layout 200 (delete_frame 42) zero_frame abcde_state) =
     Some (abcde_state\<lparr>used_capacity := 0, chunks := (chunks abcde_state)(42 := None)\<rparr>)"
  by (simp add: process_message_delete_overrun process_message_delete delete_frame_facts
        delete_frame_chunk_id delete_chunk_def abcde_state_def abcde_chunk_def)


section \<open>The client session\<close>

lemma read_chunk_fails: "read_chunk exchange now chunk_id offset len = None"
  by (simp add: read_chunk_def FileMetadata_default_def)

lemma write_chunk_fails: "\<not> write_chunk exchange now chunk_id offset bytes"
  by (simp add: write_chunk_def FileMetadata_default_def)

lemma read_fd_fails: "read_fd exchange now fd buffer sz S = (0, [], S)"
  by (simp add: read_fd_def read_chunk_fails split: option.splits list.splits)

lemma write_fd_fails: "write_fd exchange now fd bytes_opt S = (0, S)"
  by (simp add: write_fd_def write_chunk_fails split: option.splits list.splits)

text \<open>
  C9. For every client state, every descriptor and every buffer, \<^verbatim>\<open>read\<close> and \<^verbatim>\<open>write\<close>
  return 0 and leave the state, and with it every open-file handle and its
  \<^verbatim>\<open>current_offset\<close>, unchanged: \<^verbatim>\<open>read_chunk\<close> and \<^verbatim>\<open>write_chunk\<close> test the chunk list
  of a default-constructed \<^verbatim>\<open>FileMetadata\<close>, which is empty, and fail before any exchange
  with the network, whatever the network would answer.
\<close>

theorem read_write_return_zero:
  "read_chunk exchange now chunk_id offset len = None \<and>
   \<not> write_chunk exchange' now chunk_id offset bytes \<and>
   read_fd exchange now fd buffer sz S = (0, [], S) \<and>
   write_fd exchange' now fd bytes_opt S = (0, S)"
  by (simp add: read_chunk_fails write_chunk_fails read_fd_fails write_fd_fails)

lemma query_metadata_next:
  "next_file_handle (snd (query_metadata now answer path S)) = next_file_handle S"
  by (simp add: query_metadata_def Let_def split: option.splits)

lemma client_step_next:
  assumes "client_step x S = Some (r, S')"
  shows "next_file_handle S \<le> next_file_handle S' \<and>
         (\<forall>fd. r = Some fd \<longrightarrow> fd = next_file_handle S \<and> next_file_handle S' = fd + 1)"
proof (cases x)
  case (OpenPath now answer path flags)
  obtain md S1 where q: "query_metadata now answer path S = (md, S1)"
    by (cases "query_metadata now answer path S")
  then have "next_file_handle S1 = next_file_handle S"
    using query_metadata_next [of now answer path S] by simp
  then show ?thesis
    using assms OpenPath q
    by (auto simp: open_path_def Let_def split: option.splits if_splits)
qed (use assms in \<open>auto simp: create_file_def delete_file_def mkdir_def get_file_info_def
        invalidate_cache_entry_def read_fd_fails write_fd_fails close_fd_def query_metadata_next
        split: reply.splits option.splits if_splits\<close>)

lemma client_run_fds:
  assumes "client_run xs S = Some (fds, S')"
  shows "sorted_wrt (<) fds \<and> (\<forall>fd \<in> set fds. next_file_handle S \<le> fd) \<and>
         next_file_handle S \<le> next_file_handle S'"
  using assms
proof (induction xs arbitrary: S fds)
  case Nil
  then show ?case by simp
next
  case (Cons x xs)
  from Cons.prems obtain r S1 rest where
    step: "client_step x S = Some (r, S1)" and
    run: "client_run xs S1 = Some (rest, S')" and
    fds: "fds = (case r of None \<Rightarrow> rest | Some fd \<Rightarrow> fd # rest)"
    by (auto split: option.splits)
  note ih = Cons.IH [OF run]
  note st = client_step_next [OF step]
  show ?case
  proof (cases r)
    case None
    then show ?thesis using ih st fds by auto
  next
    case (Some fd)
    then have "fd = next_file_handle S" "next_file_handle S1 = fd + 1"
      using st by auto
    then show ?thesis using ih fds Some by auto
  qed
qed

text \<open>
  C10. In every run of a client from its construction, the descriptors returned by the
  successful calls of \<^verbatim>\<open>open\<close> are strictly increasing in the order of the calls, also
  across calls of \<^verbatim>\<open>close\<close>, and each is at least 1. (A run that increments the handle
  counter beyond the largest \<^verbatim>\<open>int\<close>, after \<open>2^31 - 2\<close> successful calls, has undefined
  behaviour and no final state.)
\<close>

theorem fds_never_reused:
  assumes "client_run xs DistributedFileSystem_init = Some (fds, S)"
  shows "sorted_wrt (<) fds \<and> (\<forall>fd \<in> set fds. 1 \<le> fd)"
  using client_run_fds [OF assms] by (simp add: DistributedFileSystem_init_def)

lemmas client_eval =
  DistributedFileSystem_init_def open_path_def query_metadata_def INT_MAX_def Let_def
  DFS_METADATA_CACHE_TTL_SEC_def

theorem read_write_return_zero_witness:
  "open_path 10 (Some example_metadata) ''/data/document.txt'' 1 DistributedFileSystem_init =
     Some (1, example_client) \<and>
   read_chunk always_answers 11 42 0 16 = None \<and>
   \<not> write_chunk always_accepts 11 42 0 [0x48, 0x69] \<and>
   read_fd always_answers 11 1 True 16 example_client = (0, [], example_client) \<and>
   write_fd always_accepts 11 1 (Some [0x48, 0x69]) example_client = (0, example_client)"
  using read_write_return_zero
          [of always_answers 11 42 0 16 always_accepts "[0x48, 0x69]" 1 True 16 example_client
              "Some [0x48, 0x69]"]
  by (simp add: client_eval example_client_def example_metadata_def)

theorem fds_never_reused_witness:
  "map_option fst (client_run example_client_ops DistributedFileSystem_init) = Some [1, 2, 3] \<and>
   sorted_wrt (<) [1, 2, 3 :: int]"
proof -
  have fds: "map_option fst (client_run example_client_ops DistributedFileSystem_init) =
             Some [1, 2, 3]"
    by (simp add: example_client_ops_def client_eval read_fd_fails write_fd_fails close_fd_def
          delete_file_def invalidate_cache_entry_def OP_ACK_def)
  then obtain S where
    run: "client_run example_client_ops DistributedFileSystem_init = Some ([1, 2, 3], S)"
    by (cases "client_run example_client_ops DistributedFileSystem_init") auto
  show ?thesis
    using fds fds_never_reused [OF run] by simp
qed

end
